theory Spec2Isabelle
  imports Main
begin

section \<open>Text\<close>

text \<open>
  A Python \<open>str\<close> is a sequence of Unicode code points, so it is modelled as a list of
  natural numbers. \<open>asc\<close> writes an ASCII literal of the source as such a list.
\<close>

type_synonym str = "nat list"

definition asc :: "string \<Rightarrow> str" where
  "asc s = map of_char s"

text \<open>
  The tables of the Python runtime that the program reaches through \<open>re\<close>,
  \<open>int\<close> and \<open>str.isdigit\<close> are not part of the repository; they are a
  parameter of the model. \<open>isdecimal c\<close> says that the code point has category Nd
  (what \<open>\d\<close> matches), \<open>isalnum c\<close> is \<open>str.isalnum\<close> on the code point
  (what \<open>\w\<close> and \<open>\b\<close> build on), \<open>isdigit c\<close> is \<open>str.isdigit\<close> on it,
  and \<open>to_int s\<close> is \<open>int(s)\<close>, with \<open>None\<close> for its \<open>ValueError\<close>.
\<close>

record runtime =
  isdecimal :: "nat \<Rightarrow> bool"
  isalnum :: "nat \<Rightarrow> bool"
  isdigit :: "nat \<Rightarrow> bool"
  to_int :: "str \<Rightarrow> int option"

text \<open>
  An instance for evaluating the model on ASCII text: the tables cut down to ASCII, and
  \<open>int\<close> on the texts made of ASCII digits only.
\<close>

definition ascii_digit :: "nat \<Rightarrow> bool" where
  "ascii_digit c \<longleftrightarrow> 48 \<le> c \<and> c \<le> 57"

fun digits_value :: "nat \<Rightarrow> str \<Rightarrow> nat" where
  "digits_value acc [] = acc"
| "digits_value acc (c # cs) = digits_value (10 * acc + (c - 48)) cs"

definition ascii_int :: "str \<Rightarrow> int option" where
  "ascii_int s =
     (if s \<noteq> [] \<and> list_all ascii_digit s then Some (int (digits_value 0 s)) else None)"

definition ascii_rt :: runtime where
  "ascii_rt =
     \<lparr> isdecimal = ascii_digit,
       isalnum = (\<lambda>c. ascii_digit c \<or> (65 \<le> c \<and> c \<le> 90) \<or> (97 \<le> c \<and> c \<le> 122)),
       isdigit = ascii_digit,
       to_int = ascii_int \<rparr>"

text \<open>
  White space as \<open>\s\<close>, \<open>str.strip\<close> and \<open>int\<close> see it: the code points for which
  \<open>str.isspace\<close> holds.
\<close>

definition py_isspace :: "nat \<Rightarrow> bool" where
  "py_isspace c \<longleftrightarrow>
     (9 \<le> c \<and> c \<le> 13) \<or> (28 \<le> c \<and> c \<le> 32) \<or> c = 133 \<or> c = 160 \<or> c = 5760 \<or>
     (8192 \<le> c \<and> c \<le> 8202) \<or> c = 8232 \<or> c = 8233 \<or> c = 8239 \<or> c = 8287 \<or> c = 12288"

text \<open>
  \<open>str.lower\<close> restricted to what it does on ASCII letters. The program lowers a text
  only to look for the ASCII words \<open>button\<close>, \<open>september 2025\<close> and
  \<open>october 2025\<close> in it; the only code points outside ASCII whose lower case contains
  an ASCII letter are U+0130 (giving \<open>i\<close>) and U+212A (giving \<open>k\<close>), and neither
  letter occurs in those words, so the comparisons come out the same.
\<close>

definition ascii_lower :: "nat \<Rightarrow> nat" where
  "ascii_lower c = (if 65 \<le> c \<and> c \<le> 90 then c + 32 else c)"

definition py_lower :: "str \<Rightarrow> str" where
  "py_lower t = map ascii_lower t"

text \<open>\<open>needle in hay\<close> on strings.\<close>

fun starts_with :: "str \<Rightarrow> str \<Rightarrow> bool" where
  "starts_with [] hay = True"
| "starts_with (n # ns) [] = False"
| "starts_with (n # ns) (h # hs) = (n = h \<and> starts_with ns hs)"

fun str_in :: "str \<Rightarrow> str \<Rightarrow> bool" where
  "str_in needle [] = starts_with needle []"
| "str_in needle (h # hs) = (starts_with needle (h # hs) \<or> str_in needle hs)"

section \<open>Regular expressions of the program\<close>

text \<open>
  The patterns of the source are sequences of single-character classes, some of them
  under \<open>*\<close> or \<open>+\<close>, and the word boundary \<open>\b\<close>; the one alternation (of month
  names) is written out as a list of such sequences that share the rest of the pattern.
  All searches of the source pass \<open>re.I\<close>. Under \<open>re.I\<close> an ASCII letter of a pattern
  matches its two cases and, for \<open>i\<close>, \<open>s\<close> and \<open>k\<close>, the code points that the
  \<open>re\<close> module treats as case variants of them: U+0130 and U+0131, U+017F, U+212A.
  The symbols in the bracket classes of the source have no case variants.
\<close>

datatype cls = Lit nat | OneOf "nat list" | Space | Digit

datatype item = One cls | Star cls | Plus cls | Bnd

definition ci_eq :: "nat \<Rightarrow> nat \<Rightarrow> bool" where
  "ci_eq l x \<longleftrightarrow>
     ascii_lower x = ascii_lower l \<or>
     (ascii_lower l = 105 \<and> (x = 304 \<or> x = 305)) \<or>
     (ascii_lower l = 115 \<and> x = 383) \<or>
     (ascii_lower l = 107 \<and> x = 8490)"

fun cls_ok :: "runtime \<Rightarrow> cls \<Rightarrow> nat \<Rightarrow> bool" where
  "cls_ok U (Lit l) x = ci_eq l x"
| "cls_ok U (OneOf cs) x = (x \<in> set cs)"
| "cls_ok U Space x = py_isspace x"
| "cls_ok U Digit x = isdecimal U x"

definition is_word :: "runtime \<Rightarrow> nat option \<Rightarrow> bool" where
  "is_word U c = (case c of None \<Rightarrow> False | Some x \<Rightarrow> isalnum U x \<or> x = 95)"

definition next_char :: "str \<Rightarrow> nat option" where
  "next_char t = (case t of [] \<Rightarrow> None | x # _ \<Rightarrow> Some x)"

text \<open>
  \<open>rmatch U items prev t\<close> matches the sequence at the start of \<open>t\<close>, where \<open>prev\<close> is
  the code point before it, and returns the text left after the match. \<open>*\<close> and \<open>+\<close>
  are greedy and give back on failure, as in \<open>re\<close>.
\<close>

fun rmatch :: "runtime \<Rightarrow> item list \<Rightarrow> nat option \<Rightarrow> str \<Rightarrow> str option" where
  "rmatch U [] p t = Some t"
| "rmatch U (One c # its) p [] = None"
| "rmatch U (One c # its) p (x # xs) =
     (if cls_ok U c x then rmatch U its (Some x) xs else None)"
| "rmatch U (Star c # its) p [] = rmatch U its p []"
| "rmatch U (Star c # its) p (x # xs) =
     (if cls_ok U c x
      then (case rmatch U (Star c # its) (Some x) xs of
              Some r \<Rightarrow> Some r
            | None \<Rightarrow> rmatch U its p (x # xs))
      else rmatch U its p (x # xs))"
| "rmatch U (Plus c # its) p [] = None"
| "rmatch U (Plus c # its) p (x # xs) =
     (if cls_ok U c x then rmatch U (Star c # its) (Some x) xs else None)"
| "rmatch U (Bnd # its) p t =
     (if is_word U p \<noteq> is_word U (next_char t) then rmatch U its p t else None)"

fun first_alt :: "runtime \<Rightarrow> item list list \<Rightarrow> nat option \<Rightarrow> str \<Rightarrow> str option" where
  "first_alt U [] p t = None"
| "first_alt U (a # as) p t =
     (case rmatch U a p t of Some r \<Rightarrow> Some r | None \<Rightarrow> first_alt U as p t)"

text \<open>
  \<open>re.search(pat, t, re.I)\<close>: the leftmost start at which an alternative matches;
  the value is the matched text (\<open>group()\<close>), \<open>None\<close> when there is no match.
\<close>

fun rsearch :: "runtime \<Rightarrow> item list list \<Rightarrow> nat option \<Rightarrow> str \<Rightarrow> str option" where
  "rsearch U alts p [] =
     (case first_alt U alts p [] of Some r \<Rightarrow> Some [] | None \<Rightarrow> None)"
| "rsearch U alts p (x # xs) =
     (case first_alt U alts p (x # xs) of
        Some r \<Rightarrow> Some (take (length (x # xs) - length r) (x # xs))
      | None \<Rightarrow> rsearch U alts (Some x) xs)"

definition re_search :: "runtime \<Rightarrow> item list list \<Rightarrow> str \<Rightarrow> str option" where
  "re_search U pat t = rsearch U pat None t"

definition lits :: "string \<Rightarrow> item list" where
  "lits s = map (\<lambda>c. One (Lit (of_char c))) s"

section \<open>The full-page classifier\<close>

text \<open>
  \<^verbatim>\<open>
  AVAILABILITY_POSITIVE = [r"[U+25CB U+25EF]", r"U+25B3"]
  AVAILABILITY_NEGATIVE = [r"Sold\s*out", r"Fully\s*booked", r"Unavailable",
                           r"[U+00D7 U+2715 U+2716]"]
  \<close>
\<close>

definition AVAILABILITY_POSITIVE :: "item list list list" where
  "AVAILABILITY_POSITIVE = [ [[One (OneOf [9675, 9711])]], [[One (OneOf [9651])]] ]"

definition AVAILABILITY_NEGATIVE :: "item list list list" where
  "AVAILABILITY_NEGATIVE =
     [ [lits ''Sold'' @ [Star Space] @ lits ''out''],
       [lits ''Fully'' @ [Star Space] @ lits ''booked''],
       [lits ''Unavailable''],
       [[One (OneOf [215, 10005, 10006])]] ]"

text \<open>
  \<^verbatim>\<open>
  def looks_available(text: str) -> bool:
      for pat in AVAILABILITY_NEGATIVE:
          if re.search(pat, text, flags=re.I):
              return False
      for pat in AVAILABILITY_POSITIVE:
          if re.search(pat, text, flags=re.I):
              return True
      return False
  \<close>
  \<open>any_pattern\<close> is the loop with its early exit.
\<close>

fun any_pattern :: "runtime \<Rightarrow> item list list list \<Rightarrow> str \<Rightarrow> bool" where
  "any_pattern U [] t = False"
| "any_pattern U (pat # pats) t =
     (if re_search U pat t \<noteq> None then True else any_pattern U pats t)"

definition looks_available :: "runtime \<Rightarrow> str \<Rightarrow> bool" where
  "looks_available U t =
     (if any_pattern U AVAILABILITY_NEGATIVE t then False
      else if any_pattern U AVAILABILITY_POSITIVE t then True
      else False)"

section \<open>Exceptions and the answers of the browser\<close>

text \<open>
  Every call into Playwright either returns a value or raises. The exceptions are those
  that \<open>except Exception\<close> catches: \<open>PlaywrightTimeoutError\<close> and any other one,
  each with the text that \<open>str(e)\<close> gives.
\<close>

datatype exn = PlaywrightTimeoutError str | OtherException str

fun message :: "exn \<Rightarrow> str" where
  "message (PlaywrightTimeoutError m) = m"
| "message (OtherException m) = m"

type_synonym 'a res = "exn + 'a"

text \<open>
  A \<open>print\<close> call can raise as well: \<open>UnicodeEncodeError\<close> when the standard output
  cannot encode the text, \<open>OSError\<close> when it is closed. Whether it does is an answer of
  the environment, like the answers of the browser: each record of answers below has a
  field that gives, for the source line of a \<open>print\<close> call, the outcome of that call.
  \<open>failure\<close> reads an outcome as the exception it raised, if any.
\<close>

definition failure :: "unit res \<Rightarrow> exn option" where
  "failure r = (case r of Inl e \<Rightarrow> Some e | Inr u \<Rightarrow> None)"

text \<open>
  The button of a date cell, as the program questions it: \<open>get_attribute('class')\<close>
  (which may be \<open>None\<close>), \<open>inner_html()\<close>, and the three image queries, of which only
  the truth value is used.
\<close>

record button =
  get_attribute_class :: "str option res"
  inner_html :: "str res"
  available_img :: "bool res"
  sold_out_img :: "bool res"
  few_left_img :: "bool res"

text \<open>
  The element that a day selector finds: its tag name (\<open>evaluate('el => el.tagName')\<close>),
  its own answers when it is the button itself, its \<open>xpath=ancestor::button\<close> query, and
  the answer of \<open>calendar_page.evaluate\<close> to the script that walks up from it.
\<close>

record day_elem =
  tag_name :: "str res"
  self_button :: button
  ancestor_button :: "button option res"
  walk_up :: "button option res"

text \<open>
  The answers of the environment during the iteration for one date: the outcome of the
  \<open>print\<close> call at each source line of the loop body, and the answers of
  \<open>calendar_page\<close> (the calendar frame when one was found, the page otherwise) and of
  \<open>page\<close>. An arrow that is found answers with the outcome of its \<open>click()\<close>;
  \<open>wait_after_click\<close> is the outcome of the \<open>wait_for_timeout(2000)\<close> after it. An
  element of \<open>.title-day\<close> answers with its \<open>inner_text()\<close>, the same at both calls
  of the list comprehension.
\<close>

record date_world =
  print_at :: "nat \<Rightarrow> unit res"
  body_text :: "str res"
  next_arrow :: "unit res option res"
  prev_arrow :: "bool res"
  wait_after_click :: "unit res"
  day_query :: "str \<Rightarrow> day_elem option res"
  title_days :: "str res list res"
  calendar_screenshot :: "unit res"
  page_screenshot :: "unit res"

section \<open>Results and observable effects\<close>

datatype verdict = AVAILABLE | UNAVAILABLE | UNSURE

record result =
  date :: str
  verdict :: verdict
  evidence :: str

datatype channel = Desktop | Telegram | Email

text \<open>
  The effects that the claims speak about, in the order in which they happen: a call of
  \<open>click()\<close> on the next-month arrow, a screenshot call on the calendar page or on the
  top-level page (with its path), the printed list of visible day numbers, the rows of
  the summary that were printed, and a delivery on a notification channel. The other
  \<open>print\<close> calls have no event; their outcomes are part of the answers.
\<close>

datatype event =
    Click_next
  | Shot_calendar str
  | Shot_page str
  | Listing "str list"
  | Summary "result list"
  | Notify channel

section \<open>The cell classifier\<close>

text \<open>
  \<^verbatim>\<open>
  424 if available_img:      verdict = "AVAILABLE";   evidence.append("available.svg found")
  427                        print(...)
  428 elif few_left_img:     verdict = "AVAILABLE";   evidence.append("only_one_left.svg found")
  431                        print(...)
  432 elif sold_out_img:     verdict = "UNAVAILABLE"; evidence.append("sold_out.svg found")
  435                        print(...)
  436 elif 'sold-out-layout' in button_class:
                             verdict = "UNAVAILABLE"; evidence.append("sold-out-layout class")
  439                        print(...)
  440 elif 'pointer-none' in button_class:
                             verdict = "UNAVAILABLE"; evidence.append("pointer-none class (closed)")
  443                        print(...)
  444 elif 'day-active' in button_class:
  446     if 'aval' in button_html:
                             verdict = "AVAILABLE";   evidence.append("day-active + aval found")
  449                        print(...)
          else:              verdict = "UNSURE"
                             evidence.append("day-active but no clear availability indicator")
  453                        print(...)
  454 else:                  evidence.append(f"unknown button state: {button_class}")
  456                        print(...)
  \<close>
  The verdict is \<open>UNSURE\<close> before the chain. \<open>button_html\<close> is \<open>inner_html()[:200]\<close>.
  \<open>classify\<close> gives the verdict, the evidence text and the source line of the
  \<open>print\<close> call that ends the branch.
\<close>

definition classify :: "bool \<Rightarrow> bool \<Rightarrow> bool \<Rightarrow> str \<Rightarrow> str \<Rightarrow> verdict \<times> str \<times> nat" where
  "classify available few_left sold_out button_class button_html =
     (if available then (AVAILABLE, asc ''available.svg found'', 427)
      else if few_left then (AVAILABLE, asc ''only_one_left.svg found'', 431)
      else if sold_out then (UNAVAILABLE, asc ''sold_out.svg found'', 435)
      else if str_in (asc ''sold-out-layout'') button_class
        then (UNAVAILABLE, asc ''sold-out-layout class'', 439)
      else if str_in (asc ''pointer-none'') button_class
        then (UNAVAILABLE, asc ''pointer-none class (closed)'', 443)
      else if str_in (asc ''day-active'') button_class
        then (if str_in (asc ''aval'') button_html
              then (AVAILABLE, asc ''day-active + aval found'', 449)
              else (UNSURE, asc ''day-active but no clear availability indicator'', 453))
      else (UNSURE, asc ''unknown button state: '' @ button_class, 456))"

text \<open>
  The statements that come before the chain, in the order of the source:
  \<open>get_attribute('class') or ''\<close> (411), \<open>inner_html()[:200]\<close> (412), the queries for
  \<open>available.svg\<close>, \<open>sold_out.svg\<close> and \<open>only_one_left.svg\<close> (415-417), and the
  three \<open>print\<close> calls of lines 419-421. \<open>read_button\<close> gives what they leave for the
  chain, or the exception of the first one that raises.
\<close>

definition read_button :: "(nat \<Rightarrow> unit res) \<Rightarrow> button \<Rightarrow> (bool \<times> bool \<times> bool \<times> str \<times> str) res" where
  "read_button pr b =
     (case get_attribute_class b of Inl e \<Rightarrow> Inl e | Inr c \<Rightarrow>
      (case inner_html b of Inl e \<Rightarrow> Inl e | Inr h \<Rightarrow>
       (case available_img b of Inl e \<Rightarrow> Inl e | Inr av \<Rightarrow>
        (case sold_out_img b of Inl e \<Rightarrow> Inl e | Inr so \<Rightarrow>
         (case few_left_img b of Inl e \<Rightarrow> Inl e | Inr fl \<Rightarrow>
          (case pr 419 of Inl e \<Rightarrow> Inl e | Inr u \<Rightarrow>
           (case pr 420 of Inl e \<Rightarrow> Inl e | Inr u \<Rightarrow>
            (case pr 421 of Inl e \<Rightarrow> Inl e | Inr u \<Rightarrow>
               Inr (av, fl, so, (case c of None \<Rightarrow> [] | Some k \<Rightarrow> k), take 200 h)))))))))"

text \<open>
  The block under \<open>if button_element:\<close> (411-456). The value is the verdict and the
  evidence list as they stand when the block is left, and the exception that left it, if
  any. An exception of the reads or of the prints of lines 419-421 leaves the verdict at
  \<open>UNSURE\<close> and the evidence empty; the \<open>print\<close> call that ends a branch comes after
  the assignment and the \<open>append\<close>, so its exception leaves both in place.
\<close>

definition classify_button :: "(nat \<Rightarrow> unit res) \<Rightarrow> button \<Rightarrow> verdict \<times> str list \<times> exn option" where
  "classify_button pr b =
     (case read_button pr b of
        Inl e \<Rightarrow> (UNSURE, [], Some e)
      | Inr (av, fl, so, button_class, button_html) \<Rightarrow>
          (case classify av fl so button_class button_html of
             (v, ev, line) \<Rightarrow> (v, [ev], failure (pr line))))"

text \<open>
  \<^verbatim>\<open>
  button_element = day_element
  if day_element.evaluate('el => el.tagName').lower() != 'button':
      try:
          button_element = day_element.query_selector('xpath=ancestor::button')
      except:
          button_element = calendar_page.evaluate(<script walking up>, day_element)
  \<close>
\<close>

definition find_button :: "day_elem \<Rightarrow> button option res" where
  "find_button el =
     (case tag_name el of Inl e \<Rightarrow> Inl e | Inr tag \<Rightarrow>
        if py_lower tag \<noteq> asc ''button''
        then (case ancestor_button el of Inl e \<Rightarrow> walk_up el | Inr b \<Rightarrow> Inr b)
        else Inr (Some (self_button el)))"

text \<open>
  \<^verbatim>\<open>
  383 for selector in day_selectors:
  384     day_element = calendar_page.query_selector(selector)
  385     if day_element:
  386         print(f"[debug] Found day element using: {selector}")
  387         break
  \<close>
  The first selector that finds an element wins.
\<close>

fun first_found :: "(str \<Rightarrow> day_elem option res) \<Rightarrow> (nat \<Rightarrow> unit res) \<Rightarrow> str list \<Rightarrow> day_elem option res" where
  "first_found q pr [] = Inr None"
| "first_found q pr (sel # sels) =
     (case q sel of
        Inl e \<Rightarrow> Inl e
      | Inr (Some el) \<Rightarrow> (case pr 386 of Inl e \<Rightarrow> Inl e | Inr u \<Rightarrow> Inr (Some el))
      | Inr None \<Rightarrow> first_found q pr sels)"

text \<open>\<open>str(n)\<close> for an integer, as the f-strings of the selectors format the day.\<close>

function show_nat :: "nat \<Rightarrow> str" where
  "show_nat n = (if n < 10 then [48 + n] else show_nat (n div 10) @ [48 + n mod 10])"
  by pat_completeness auto
termination
  by (relation "measure id") auto

declare show_nat.simps [simp del]

definition show_int :: "int \<Rightarrow> str" where
  "show_int i = (if i < 0 then 45 # show_nat (nat (- i)) else show_nat (nat i))"

text \<open>
  \<^verbatim>\<open>
  day_selectors = [
      f'.title-day:has-text("{target_day}")',
      f'button:has-text("{target_day}")',
      f'span:has-text("{target_day}")',
  ]
  \<close>
  Code point 34 is the double quote.
\<close>

definition day_selectors :: "int \<Rightarrow> str list" where
  "day_selectors target_day =
     [ asc ''.title-day:has-text('' @ [34] @ show_int target_day @ [34] @ asc '')'',
       asc ''button:has-text('' @ [34] @ show_int target_day @ [34] @ asc '')'',
       asc ''span:has-text('' @ [34] @ show_int target_day @ [34] @ asc '')'' ]"

text \<open>
  \<^verbatim>\<open>
  465 all_days = calendar_page.query_selector_all('.title-day')
  466 available_days = [day.inner_text() for day in all_days
                        if day.inner_text().strip().isdigit()]
  467 print(f"[debug] Available days in calendar: {available_days}")
  \<close>
\<close>

definition py_strip :: "str \<Rightarrow> str" where
  "py_strip t = rev (dropWhile py_isspace (rev (dropWhile py_isspace t)))"

definition py_isdigit :: "runtime \<Rightarrow> str \<Rightarrow> bool" where
  "py_isdigit U t \<longleftrightarrow> t \<noteq> [] \<and> list_all (isdigit U) t"

fun available_days :: "runtime \<Rightarrow> str res list \<Rightarrow> str list res" where
  "available_days U [] = Inr []"
| "available_days U (a # as) =
     (case a of
        Inl e \<Rightarrow> Inl e
      | Inr t \<Rightarrow>
          (case available_days U as of
             Inl e \<Rightarrow> Inl e
           | Inr r \<Rightarrow> Inr (if py_isdigit U (py_strip t) then t # r else r)))"

text \<open>
  The branch where no selector found an element (460-467): the \<open>append\<close>, the
  \<open>print\<close> of line 462, the listing and its \<open>print\<close>. The listing counts as an
  effect when its \<open>print\<close> returns.
\<close>

definition not_found :: "runtime \<Rightarrow> date_world \<Rightarrow> verdict \<times> str list \<times> event list \<times> exn option" where
  "not_found U w =
     (case print_at w 462 of
        Inl e \<Rightarrow> (UNSURE, [asc ''date element not found''], [], Some e)
      | Inr u \<Rightarrow>
          (case title_days w of
             Inl e \<Rightarrow> (UNSURE, [asc ''date element not found''], [], Some e)
           | Inr all_days \<Rightarrow>
               (case available_days U all_days of
                  Inl e \<Rightarrow> (UNSURE, [asc ''date element not found''], [], Some e)
                | Inr days \<Rightarrow>
                    (case print_at w 467 of
                       Inl e \<Rightarrow> (UNSURE, [asc ''date element not found''], [], Some e)
                     | Inr u \<Rightarrow>
                         (UNSURE, [asc ''date element not found''], [Listing days], None)))))"

text \<open>
  The \<open>try\<close> block of the inspection of one date (374-467). The value is the verdict
  and the evidence list as they stand when the block is left, the effects, and the
  exception that left it, if any.
\<close>

definition try_inspect :: "runtime \<Rightarrow> int \<Rightarrow> date_world \<Rightarrow> verdict \<times> str list \<times> event list \<times> exn option" where
  "try_inspect U target_day w =
     (case first_found (day_query w) (print_at w) (day_selectors target_day) of
        Inl e \<Rightarrow> (UNSURE, [], [], Some e)
      | Inr None \<Rightarrow> not_found U w
      | Inr (Some day_element) \<Rightarrow>
          (case find_button day_element of
             Inl e \<Rightarrow> (UNSURE, [], [], Some e)
           | Inr None \<Rightarrow>
               (UNSURE, [asc ''found day element but no parent button''], [],
                failure (print_at w 459))
           | Inr (Some button_element) \<Rightarrow>
               (case classify_button (print_at w) button_element of
                  (v, ev, x) \<Rightarrow> (v, ev, [], x))))"

definition error_evidence :: "exn \<Rightarrow> str" where
  "error_evidence e = asc ''error: '' @ message e"

text \<open>
  The block with its handler:
  \<^verbatim>\<open>
  469 except Exception as e:
  470     print(f"[debug] Date detection error: {e}")
  471     evidence.append(f"error: {e}")
  \<close>
  The \<open>print\<close> comes first; what it raises is raised in the handler and leaves the
  loop. The last component of the value is that exception, if any.
\<close>

definition inspect_date :: "runtime \<Rightarrow> int \<Rightarrow> date_world \<Rightarrow> verdict \<times> str list \<times> event list \<times> exn option" where
  "inspect_date U target_day w =
     (case try_inspect U target_day w of
        (v, ev, es, None) \<Rightarrow> (v, ev, es, None)
      | (v, ev, es, Some e) \<Rightarrow>
          (case print_at w 470 of
             Inl e' \<Rightarrow> (v, ev, es, Some e')
           | Inr u \<Rightarrow> (v, ev @ [error_evidence e], es, None)))"

section \<open>Locating the calendar\<close>

text \<open>
  \<^verbatim>\<open>
  month_pattern = r'\b(January|February|March|April|May|June|July|August|September
                      |October|November|December)\s+20\d{2}\b'
  \<close>
\<close>

definition month_names :: "string list" where
  "month_names =
     [''January'', ''February'', ''March'', ''April'', ''May'', ''June'', ''July'',
      ''August'', ''September'', ''October'', ''November'', ''December'']"

definition month_pattern :: "item list list" where
  "month_pattern =
     map (\<lambda>m. [Bnd] @ lits m @ [Plus Space] @ lits ''20'' @ [One Digit, One Digit, Bnd])
       month_names"

text \<open>
  The answers of the calendar frame while the program looks for it, before the loop:
  \<open>wait_for_timeout(2000)\<close>, the first \<open>inner_text('body')\<close>, the query for the
  next-month arrow (an arrow that is found answers with the outcome of its
  \<open>click()\<close>), \<open>wait_for_timeout(3000)\<close> and the second \<open>inner_text('body')\<close>.
\<close>

record frame_world =
  frame_wait :: "unit res"
  frame_body :: "str res"
  frame_next_btn :: "unit res option res"
  frame_wait_click :: "unit res"
  frame_body_after :: "str res"

record iframe_elem =
  get_attribute_src :: "str option res"
  content_frame :: "frame_world option res"

text \<open>The \<open>OK\<close> button of the popup: \<open>is_visible()\<close> and \<open>click()\<close>.\<close>

record popup_button =
  is_visible :: "bool res"
  popup_click :: "unit res"

text \<open>
  The answers of the environment outside the iterations: the outcome of the \<open>print\<close>
  call at each source line before the loop and of the header of the summary (483), the
  outcome of the \<open>print\<close> of each row of the summary (489, by the index of the row),
  \<open>goto\<close>, \<open>wait_for_timeout(1200)\<close>, the query for the \<open>OK\<close> button, the
  \<open>wait_for_timeout(3000)\<close> after its click, and the query for the calendar iframe.
\<close>

record page_world =
  page_print_at :: "nat \<Rightarrow> unit res"
  print_row :: "nat \<Rightarrow> unit res"
  goto :: "unit res"
  wait_loaded :: "unit res"
  popup_query :: "popup_button option res"
  popup_wait :: "unit res"
  iframe_query :: "iframe_elem option res"

text \<open>
  \<^verbatim>\<open>
  258 popup_found = False
  259 try:
  260     popup_btn = page.query_selector('button:has-text("OK")')
  261     if popup_btn and popup_btn.is_visible():
  262         print(f"[info] Found and clicking OK button")
  263         popup_btn.click()
  264         popup_found = True
  265         page.wait_for_timeout(3000)
  266 except Exception as e:
  267     print(f"[debug] Popup handling error: {e}")
  269 if not popup_found:
  270     print("[info] No popup found or already dismissed")
  \<close>
  \<open>popup_try\<close> is the \<open>try\<close> block: the value of \<open>popup_found\<close> and the exception
  that left the block, if any. \<open>dismiss_popup\<close> is the whole: the exception that leaves
  it, which can only come from the \<open>print\<close> calls of lines 267 and 270.
\<close>

definition popup_try :: "page_world \<Rightarrow> bool \<times> exn option" where
  "popup_try pw =
     (case popup_query pw of
        Inl e \<Rightarrow> (False, Some e)
      | Inr None \<Rightarrow> (False, None)
      | Inr (Some popup_btn) \<Rightarrow>
          (case is_visible popup_btn of
             Inl e \<Rightarrow> (False, Some e)
           | Inr visible \<Rightarrow>
               if \<not> visible then (False, None)
               else (case page_print_at pw 262 of Inl e \<Rightarrow> (False, Some e) | Inr u \<Rightarrow>
                     (case popup_click popup_btn of Inl e \<Rightarrow> (False, Some e) | Inr u \<Rightarrow>
                        (True, failure (popup_wait pw))))))"

definition dismiss_popup :: "page_world \<Rightarrow> exn option" where
  "dismiss_popup pw =
     (case popup_try pw of (popup_found, raised) \<Rightarrow>
        (case (case raised of None \<Rightarrow> None | Some e \<Rightarrow> failure (page_print_at pw 267)) of
           Some e' \<Rightarrow> Some e'
         | None \<Rightarrow> if popup_found then None else failure (page_print_at pw 270)))"

text \<open>
  \<^verbatim>\<open>
  288 try:
  289     iframe_body_text = iframe_content.inner_text('body')
  290     print(...)
  292     month_match = re.search(month_pattern, iframe_body_text, re.I)
  293     if month_match:
  294         current_month_text = month_match.group()
  295         print(...)
  298         if "september 2025" in current_month_text.lower():
  299             print(...)
  300             next_btn = iframe_content.query_selector('img[src*="arrow_next_calendar.svg"]')
  301             if next_btn:
  302                 next_btn.click()
  303                 iframe_content.wait_for_timeout(3000)
  304                 print(...)
  307                 updated_text = iframe_content.inner_text('body')
  308                 updated_match = re.search(month_pattern, updated_text, re.I)
  309                 if updated_match:
  311                     print(...)
  313                     page._navigated_to_october = True
  314             else:
  315                 print(...)
  316         elif "october 2025" in current_month_text.lower():
  317             print(...)
  318             page._navigated_to_october = True
  319     else:
  320         print(...)
  321 except Exception as e:
  322     print(f"[debug] Error with month navigation: {e}")
  \<close>
  \<open>month_try\<close> is the \<open>try\<close> block: the effects, whether
  \<open>page._navigated_to_october\<close> was set, and the exception that left the block, if
  any. A click is recorded when \<open>click()\<close> is called, whatever its outcome.
  \<open>month_navigation\<close> adds the handler, whose \<open>print\<close> can raise in turn.
\<close>

definition after_click :: "runtime \<Rightarrow> (nat \<Rightarrow> unit res) \<Rightarrow> frame_world \<Rightarrow> bool \<times> exn option" where
  "after_click U pr f =
     (case frame_wait_click f of Inl e \<Rightarrow> (False, Some e) | Inr u \<Rightarrow>
      (case pr 304 of Inl e \<Rightarrow> (False, Some e) | Inr u \<Rightarrow>
       (case frame_body_after f of Inl e \<Rightarrow> (False, Some e) | Inr updated_text \<Rightarrow>
        (case re_search U month_pattern updated_text of
           None \<Rightarrow> (False, None)
         | Some updated_match \<Rightarrow>
             (case pr 311 of Inl e \<Rightarrow> (False, Some e) | Inr u \<Rightarrow> (True, None))))))"

definition month_try :: "runtime \<Rightarrow> (nat \<Rightarrow> unit res) \<Rightarrow> frame_world \<Rightarrow> event list \<times> bool \<times> exn option" where
  "month_try U pr f =
     (case frame_body f of Inl e \<Rightarrow> ([], False, Some e) | Inr iframe_body_text \<Rightarrow>
      (case pr 290 of Inl e \<Rightarrow> ([], False, Some e) | Inr u \<Rightarrow>
       (case re_search U month_pattern iframe_body_text of
          None \<Rightarrow> ([], False, failure (pr 320))
        | Some current_month_text \<Rightarrow>
            (case pr 295 of Inl e \<Rightarrow> ([], False, Some e) | Inr u \<Rightarrow>
               if str_in (asc ''september 2025'') (py_lower current_month_text)
               then (case pr 299 of Inl e \<Rightarrow> ([], False, Some e) | Inr u \<Rightarrow>
                     (case frame_next_btn f of
                        Inl e \<Rightarrow> ([], False, Some e)
                      | Inr None \<Rightarrow> ([], False, failure (pr 315))
                      | Inr (Some click) \<Rightarrow>
                          (case click of
                             Inl e \<Rightarrow> ([Click_next], False, Some e)
                           | Inr u \<Rightarrow>
                               (case after_click U pr f of
                                  (navigated, x) \<Rightarrow> ([Click_next], navigated, x)))))
               else if str_in (asc ''october 2025'') (py_lower current_month_text)
               then (case pr 317 of Inl e \<Rightarrow> ([], False, Some e) | Inr u \<Rightarrow> ([], True, None))
               else ([], False, None)))))"

definition month_navigation :: "runtime \<Rightarrow> (nat \<Rightarrow> unit res) \<Rightarrow> frame_world \<Rightarrow> event list \<times> bool \<times> exn option" where
  "month_navigation U pr f =
     (case month_try U pr f of
        (es, navigated, None) \<Rightarrow> (es, navigated, None)
      | (es, navigated, Some e) \<Rightarrow> (es, navigated, failure (pr 322)))"

text \<open>
  \<^verbatim>\<open>
  274 try:
  275     iframe = page.query_selector('#bsvCalendarIframe, iframe[src*="calendar"]')
  276     if iframe:
  277         iframe_src = iframe.get_attribute('src') or 'no src'
  278         print(...)
  281         iframe_content = iframe.content_frame()
  282         if iframe_content:
  283             print(...)
  285             iframe_content.wait_for_timeout(2000)
  288             <month navigation>
  324             page._iframe_calendar = iframe_content
  325         else:
  326             print(...)
  327     else:
  328         print(...)
  329 except Exception as e:
  330     print(f"[debug] Iframe access error: {e}")
  \<close>
  \<open>locate_try\<close> is the \<open>try\<close> block, \<open>locate_calendar\<close> adds the handler. The last
  component of the value of \<open>locate_calendar\<close> is the exception that leaves it, which
  can only come from the \<open>print\<close> of line 330.
\<close>

definition locate_try :: "runtime \<Rightarrow> page_world \<Rightarrow> event list \<times> bool \<times> exn option" where
  "locate_try U pw =
     (case iframe_query pw of
        Inl e \<Rightarrow> ([], False, Some e)
      | Inr None \<Rightarrow> ([], False, failure (page_print_at pw 328))
      | Inr (Some iframe) \<Rightarrow>
          (case get_attribute_src iframe of Inl e \<Rightarrow> ([], False, Some e) | Inr src \<Rightarrow>
           (case page_print_at pw 278 of Inl e \<Rightarrow> ([], False, Some e) | Inr u \<Rightarrow>
            (case content_frame iframe of
               Inl e \<Rightarrow> ([], False, Some e)
             | Inr None \<Rightarrow> ([], False, failure (page_print_at pw 326))
             | Inr (Some iframe_content) \<Rightarrow>
                 (case page_print_at pw 283 of Inl e \<Rightarrow> ([], False, Some e) | Inr u \<Rightarrow>
                  (case frame_wait iframe_content of Inl e \<Rightarrow> ([], False, Some e) | Inr u \<Rightarrow>
                     month_navigation U (page_print_at pw) iframe_content))))))"

definition locate_calendar :: "runtime \<Rightarrow> page_world \<Rightarrow> event list \<times> bool \<times> exn option" where
  "locate_calendar U pw =
     (case locate_try U pw of
        (es, navigated, None) \<Rightarrow> (es, navigated, None)
      | (es, navigated, Some e) \<Rightarrow> (es, navigated, failure (page_print_at pw 330)))"

section \<open>The loop over the dates\<close>

text \<open>
  \<^verbatim>\<open>
  345 try:
  346     month_text = calendar_page.inner_text('body')
  347     print(...)
  350     if hasattr(page, '_navigated_to_october') and page._navigated_to_october:
  351         print(...)
  352     elif "October 2025" in month_text and target_month == 10 and target_year == 2025:
  353         print(...)
  354     else:
  355         print(...)
  357         next_arrow = calendar_page.query_selector('img[src*="arrow_next_calendar.svg"]')
  358         prev_arrow = calendar_page.query_selector('img[src*="arrow_prev_calendar.svg"]')
  360         if next_arrow:
  361             print(...)
  362             next_arrow.click()
  363             calendar_page.wait_for_timeout(2000)
  364         elif prev_arrow:
  365             print(...)
  367 except Exception as e:
  368     print(f"[debug] Month detection error: {e}")
  \<close>
  \<open>navigate_try\<close> is the \<open>try\<close> block: the effects and the exception that left it,
  if any. \<open>navigate_month\<close> adds the handler; the exception in its value is the one
  that leaves the loop, which can only come from the \<open>print\<close> of line 368.
\<close>

definition navigate_try :: "bool \<Rightarrow> int \<Rightarrow> int \<Rightarrow> date_world \<Rightarrow> event list \<times> exn option" where
  "navigate_try navigated target_year target_month w =
     (case body_text w of Inl e \<Rightarrow> ([], Some e) | Inr month_text \<Rightarrow>
      (case print_at w 347 of Inl e \<Rightarrow> ([], Some e) | Inr u \<Rightarrow>
         if navigated then ([], failure (print_at w 351))
         else if str_in (asc ''October 2025'') month_text \<and> target_month = 10 \<and> target_year = 2025
         then ([], failure (print_at w 353))
         else (case print_at w 355 of Inl e \<Rightarrow> ([], Some e) | Inr u \<Rightarrow>
               (case next_arrow w of Inl e \<Rightarrow> ([], Some e) | Inr na \<Rightarrow>
                (case prev_arrow w of Inl e \<Rightarrow> ([], Some e) | Inr pa \<Rightarrow>
                 (case na of
                    Some click \<Rightarrow>
                      (case print_at w 361 of Inl e \<Rightarrow> ([], Some e) | Inr u \<Rightarrow>
                       (case click of
                          Inl e \<Rightarrow> ([Click_next], Some e)
                        | Inr u \<Rightarrow> ([Click_next], failure (wait_after_click w))))
                  | None \<Rightarrow> if pa then ([], failure (print_at w 365)) else ([], None)))))))"

definition navigate_month :: "bool \<Rightarrow> int \<Rightarrow> int \<Rightarrow> date_world \<Rightarrow> event list \<times> exn option" where
  "navigate_month navigated target_year target_month w =
     (case navigate_try navigated target_year target_month w of
        (es, None) \<Rightarrow> (es, None)
      | (es, Some e) \<Rightarrow> (es, failure (print_at w 368)))"

text \<open>
  \<^verbatim>\<open>
  339 target_year, target_month, target_day = d.split('-')
  340 target_year, target_month, target_day = int(target_year), int(target_month), int(target_day)
  \<close>
  Both lines stand outside every \<open>try\<close> of the loop body: a date that does not split
  into three parts, or a part that \<open>int\<close> rejects, raises \<open>ValueError\<close> out of the loop.
\<close>

fun split_on :: "nat \<Rightarrow> str \<Rightarrow> str list" where
  "split_on c [] = [[]]"
| "split_on c (x # xs) =
     (if x = c then [] # split_on c xs
      else (case split_on c xs of [] \<Rightarrow> [[x]] | w # ws \<Rightarrow> (x # w) # ws))"

definition parse_date :: "runtime \<Rightarrow> str \<Rightarrow> (int \<times> int \<times> int) option" where
  "parse_date U d =
     (case split_on 45 d of
        [y, m, dd] \<Rightarrow>
          (case to_int U y of None \<Rightarrow> None | Some target_year \<Rightarrow>
           (case to_int U m of None \<Rightarrow> None | Some target_month \<Rightarrow>
            (case to_int U dd of None \<Rightarrow> None | Some target_day \<Rightarrow>
               Some (target_year, target_month, target_day))))
      | _ \<Rightarrow> None)"

text \<open>
  \<^verbatim>\<open>
  474 safe_d = d.replace('-', '_')
  475 try:
  476     calendar_page.screenshot(path=f"screenshots/{safe_d}.png", full_page=True)
  477 except:
  478     page.screenshot(path=f"screenshots/{safe_d}.png", full_page=True)
  \<close>
  The second call stands in the handler, under no \<open>try\<close> of its own: what it raises
  leaves the loop.
\<close>

definition screenshot_path :: "str \<Rightarrow> str" where
  "screenshot_path d =
     asc ''screenshots/'' @ map (\<lambda>c. if c = 45 then 95 else c) d @ asc ''.png''"

definition take_screenshot :: "str \<Rightarrow> date_world \<Rightarrow> event list \<times> exn option" where
  "take_screenshot d w =
     (case calendar_screenshot w of
        Inr u \<Rightarrow> ([Shot_calendar (screenshot_path d)], None)
      | Inl e \<Rightarrow>
          (case page_screenshot w of
             Inr u \<Rightarrow> ([Shot_calendar (screenshot_path d), Shot_page (screenshot_path d)], None)
           | Inl e' \<Rightarrow>
               ([Shot_calendar (screenshot_path d), Shot_page (screenshot_path d)], Some e')))"

text \<open>\<open>sep.join(parts)\<close>.\<close>

fun py_join :: "str \<Rightarrow> str list \<Rightarrow> str" where
  "py_join sep [] = []"
| "py_join sep [x] = x"
| "py_join sep (x # y # ys) = x @ sep @ py_join sep (y # ys)"

text \<open>
  What ends the multi-date run with an exception that nothing catches: a failure of
  \<open>goto\<close> or of the wait after it, a date that does not parse, a failure of the second
  screenshot call, and a \<open>print\<close> that raises outside a \<open>try\<close> block or inside a
  handler.
\<close>

datatype crash = Navigation_failed exn | Bad_date str | Screenshot_failed exn | Print_failed exn

text \<open>
  One iteration of \<open>for d in dates\<close>: the \<open>print\<close> of line 333, the parsing of the
  date, the \<open>print\<close> of line 342, the month navigation, the inspection, the screenshot,
  and
  \<^verbatim>\<open>
  480 results.append({"date": d, "verdict": verdict, "evidence": "; ".join(evidence)[:300]})
  \<close>
\<close>

definition make_result :: "str \<Rightarrow> verdict \<Rightarrow> str list \<Rightarrow> result" where
  "make_result d v ev = \<lparr> date = d, verdict = v, evidence = take 300 (py_join (asc ''; '') ev) \<rparr>"

definition check_parsed :: "runtime \<Rightarrow> bool \<Rightarrow> str \<Rightarrow> int \<times> int \<times> int \<Rightarrow> date_world \<Rightarrow> event list \<times> (crash + result)" where
  "check_parsed U navigated d ymd w =
     (case ymd of (target_year, target_month, target_day) \<Rightarrow>
        (case navigate_month navigated target_year target_month w of
           (es1, Some e) \<Rightarrow> (es1, Inl (Print_failed e))
         | (es1, None) \<Rightarrow>
             (case inspect_date U target_day w of
                (v, ev, es2, Some e) \<Rightarrow> (es1 @ es2, Inl (Print_failed e))
              | (v, ev, es2, None) \<Rightarrow>
                  (case take_screenshot d w of
                     (es3, Some e) \<Rightarrow> (es1 @ es2 @ es3, Inl (Screenshot_failed e))
                   | (es3, None) \<Rightarrow> (es1 @ es2 @ es3, Inr (make_result d v ev))))))"

definition check_date :: "runtime \<Rightarrow> bool \<Rightarrow> str \<Rightarrow> date_world \<Rightarrow> event list \<times> (crash + result)" where
  "check_date U navigated d w =
     (case print_at w 333 of
        Inl e \<Rightarrow> ([], Inl (Print_failed e))
      | Inr u \<Rightarrow>
          (case parse_date U d of
             None \<Rightarrow> ([], Inl (Bad_date d))
           | Some ymd \<Rightarrow>
               (case print_at w 342 of
                  Inl e \<Rightarrow> ([], Inl (Print_failed e))
                | Inr u \<Rightarrow> check_parsed U navigated d ymd w)))"

text \<open>
  The loop. Each requested date comes with the answers that the environment gives during
  its iteration. The list returned is \<open>results\<close> after the loop.
\<close>

fun check_dates :: "runtime \<Rightarrow> bool \<Rightarrow> (str \<times> date_world) list \<Rightarrow> event list \<times> (crash + result list)" where
  "check_dates U navigated [] = ([], Inr [])"
| "check_dates U navigated ((d, w) # rest) =
     (case check_date U navigated d w of
        (es, Inl c) \<Rightarrow> (es, Inl c)
      | (es, Inr r) \<Rightarrow>
          (case check_dates U navigated rest of
             (es', Inl c) \<Rightarrow> (es @ es', Inl c)
           | (es', Inr rs) \<Rightarrow> (es @ es', Inr (r # rs))))"

section \<open>The multi-date entry point\<close>

text \<open>
  \<^verbatim>\<open>
  483 print(<header of the summary>)
  488 for r in results:
  489     print(f"{r['date']}  {r['verdict']:<12}  {r['evidence']}")
  \<close>
  \<open>print_rows\<close> gives the rows that were printed and the exception of the first
  \<open>print\<close> that raised, if any.
\<close>

fun print_rows :: "(nat \<Rightarrow> unit res) \<Rightarrow> nat \<Rightarrow> result list \<Rightarrow> result list \<times> exn option" where
  "print_rows pr k [] = ([], None)"
| "print_rows pr k (r # rs) =
     (case pr k of
        Inl e \<Rightarrow> ([], Some e)
      | Inr u \<Rightarrow> (case print_rows pr (Suc k) rs of (printed, x) \<Rightarrow> (r # printed, x)))"

text \<open>
  The block under \<open>if __name__ == "__main__"\<close>, from the \<open>print\<close> of line 247,
  which stands before the \<open>try\<close>, to the summary (489). The outer \<open>try\<close> has a
  \<open>finally\<close> and no \<open>except\<close>. Reading the arguments, creating the folder of the
  screenshots, starting and closing the browser are taken to succeed. A run either ends
  with exit status 0, after the whole summary, or ends with the traceback of an uncaught
  exception and exit status 1.
\<close>

datatype outcome = Exit_ok | Traceback crash

fun exit_status :: "outcome \<Rightarrow> nat" where
  "exit_status Exit_ok = 0"
| "exit_status (Traceback c) = 1"

definition print_summary :: "page_world \<Rightarrow> result list \<Rightarrow> event list \<times> outcome" where
  "print_summary pw results =
     (case page_print_at pw 483 of
        Inl e \<Rightarrow> ([], Traceback (Print_failed e))
      | Inr u \<Rightarrow>
          (case print_rows (print_row pw) 0 results of
             (printed, None) \<Rightarrow> ([Summary printed], Exit_ok)
           | (printed, Some e) \<Rightarrow> ([Summary printed], Traceback (Print_failed e))))"

definition before_loop :: "runtime \<Rightarrow> page_world \<Rightarrow> event list \<times> (crash + bool)" where
  "before_loop U pw =
     (case page_print_at pw 247 of Inl e \<Rightarrow> ([], Inl (Print_failed e)) | Inr u \<Rightarrow>
      (case goto pw of Inl e \<Rightarrow> ([], Inl (Navigation_failed e)) | Inr u \<Rightarrow>
       (case wait_loaded pw of Inl e \<Rightarrow> ([], Inl (Navigation_failed e)) | Inr u \<Rightarrow>
        (case page_print_at pw 257 of Inl e \<Rightarrow> ([], Inl (Print_failed e)) | Inr u \<Rightarrow>
         (case dismiss_popup pw of Some e \<Rightarrow> ([], Inl (Print_failed e)) | None \<Rightarrow>
          (case page_print_at pw 273 of Inl e \<Rightarrow> ([], Inl (Print_failed e)) | Inr u \<Rightarrow>
           (case locate_calendar U pw of
              (es0, navigated, Some e) \<Rightarrow> (es0, Inl (Print_failed e))
            | (es0, navigated, None) \<Rightarrow> (es0, Inr navigated))))))))"

definition multi_date :: "runtime \<Rightarrow> page_world \<Rightarrow> (str \<times> date_world) list \<Rightarrow> event list \<times> outcome" where
  "multi_date U pw dates =
     (case before_loop U pw of
        (es0, Inl c) \<Rightarrow> (es0, Traceback c)
      | (es0, Inr navigated) \<Rightarrow>
          (case check_dates U navigated dates of
             (es, Inl c) \<Rightarrow> (es0 @ es, Traceback c)
           | (es, Inr results) \<Rightarrow>
               (case print_summary pw results of
                  (es1, out) \<Rightarrow> (es0 @ es @ es1, out))))"

section \<open>The single-date entry point\<close>

text \<open>
  The settings that guard the three channels. A setting that is unset or empty is false.
\<close>

record config =
  DESKTOP_NOTIFY :: bool
  TELEGRAM_BOT_TOKEN :: "str option"
  TELEGRAM_CHAT_ID :: "str option"
  EMAIL_FROM :: "str option"
  EMAIL_TO :: "str option"
  SMTP_PASS :: "str option"

definition truthy :: "str option \<Rightarrow> bool" where
  "truthy v = (case v of None \<Rightarrow> False | Some s \<Rightarrow> s \<noteq> [])"

text \<open>
  \<open>desktop_notify\<close>, \<open>telegram_notify\<close> and \<open>email_notify\<close>, called in this order.
  Each returns at once when its settings are missing and swallows the failures of its
  delivery.
\<close>

definition notify_all :: "config \<Rightarrow> event list" where
  "notify_all cfg =
     (if DESKTOP_NOTIFY cfg then [Notify Desktop] else []) @
     (if truthy (TELEGRAM_BOT_TOKEN cfg) \<and> truthy (TELEGRAM_CHAT_ID cfg)
      then [Notify Telegram] else []) @
     (if truthy (EMAIL_FROM cfg) \<and> truthy (EMAIL_TO cfg) \<and> truthy (SMTP_PASS cfg)
      then [Notify Email] else [])"

text \<open>
  The answers of the environment in \<open>main\<close>: the outcome of the \<open>print\<close> call at each
  source line, \<open>goto\<close>, \<open>wait_for_timeout(1500)\<close> and \<open>inner_text("body")\<close>. The two
  date-picker blocks run under \<open>suppress(Exception)\<close>, print nothing, reach no
  notification and set nothing that is read later; they are left out.
\<close>

record main_world =
  main_print_at :: "nat \<Rightarrow> unit res"
  main_goto :: "unit res"
  main_wait :: "unit res"
  main_body :: "str res"

text \<open>
  The \<open>try\<close> block of \<open>main\<close> (149-204): the effects, and the exception that left it
  or the value returned.
  \<^verbatim>\<open>
  193 is_open = looks_available(full_text)
  194 print(f"[info] availability heuristic => {'AVAILABLE' if is_open else 'not available'}")
  196 if is_open:
          ... desktop_notify(...); telegram_notify(msg); email_notify(...)
  204 return 0
  \<close>
\<close>

definition main_try :: "runtime \<Rightarrow> config \<Rightarrow> main_world \<Rightarrow> event list \<times> (exn + nat)" where
  "main_try U cfg w =
     (case main_goto w of Inl e \<Rightarrow> ([], Inl e) | Inr u \<Rightarrow>
      (case main_wait w of Inl e \<Rightarrow> ([], Inl e) | Inr u \<Rightarrow>
       (case main_body w of Inl e \<Rightarrow> ([], Inl e) | Inr full_text \<Rightarrow>
        (case main_print_at w 194 of Inl e \<Rightarrow> ([], Inl e) | Inr u \<Rightarrow>
           ((if looks_available U full_text then notify_all cfg else []), Inr 0)))))"

text \<open>
  The handlers:
  \<^verbatim>\<open>
  205 except PlaywrightTimeoutError:
  206     print("[error] Page load timeout. ...")
  207     return 2
  208 except Exception as e:
  209     print(f"[error] {e}")
  210     return 3
  \<close>
  A \<open>print\<close> that raises in a handler is raised by \<open>main\<close>.
\<close>

fun handler :: "(nat \<Rightarrow> unit res) \<Rightarrow> exn \<Rightarrow> exn + nat" where
  "handler pr (PlaywrightTimeoutError m) = (case pr 206 of Inl e \<Rightarrow> Inl e | Inr u \<Rightarrow> Inr 2)"
| "handler pr (OtherException m) = (case pr 209 of Inl e \<Rightarrow> Inl e | Inr u \<Rightarrow> Inr 3)"

text \<open>
  \<open>main\<close>: the \<open>print\<close> of line 143, which stands before the \<open>try\<close>, then the
  \<open>try\<close> block with its handlers. The value is the effects and either the exception
  that \<open>main\<close> raises or the code that it returns.
\<close>

definition main :: "runtime \<Rightarrow> config \<Rightarrow> main_world \<Rightarrow> event list \<times> (exn + nat)" where
  "main U cfg w =
     (case main_print_at w 143 of
        Inl e \<Rightarrow> ([], Inl e)
      | Inr u \<Rightarrow>
          (case main_try U cfg w of
             (es, Inl e) \<Rightarrow> (es, handler (main_print_at w) e)
           | (es, Inr code) \<Rightarrow> (es, Inr code)))"

section \<open>Counting effects\<close>

definition clicks :: "event list \<Rightarrow> nat" where
  "clicks es = length (filter (\<lambda>e. e = Click_next) es)"

fun is_fallback_shot :: "event \<Rightarrow> bool" where
  "is_fallback_shot (Shot_page path) = True"
| "is_fallback_shot e = False"

fun is_summary :: "event \<Rightarrow> bool" where
  "is_summary (Summary rs) = True"
| "is_summary e = False"

fun is_notify :: "event \<Rightarrow> bool" where
  "is_notify (Notify c) = True"
| "is_notify e = False"

text \<open>The effects that an iteration of the loop can have.\<close>

fun loop_event :: "event \<Rightarrow> bool" where
  "loop_event Click_next = True"
| "loop_event (Shot_calendar path) = True"
| "loop_event (Shot_page path) = True"
| "loop_event (Listing days) = True"
| "loop_event (Summary rs) = False"
| "loop_event (Notify c) = False"

text \<open>
  \<open>main\<close> reports the value of \<open>looks_available\<close> as
  \<^verbatim>\<open>'AVAILABLE' if is_open else 'not available'\<close>; as a verdict, the second is
  \<open>UNAVAILABLE\<close>.
\<close>

definition heuristic_verdict :: "bool \<Rightarrow> verdict" where
  "heuristic_verdict is_open = (if is_open then AVAILABLE else UNAVAILABLE)"

text \<open>Whether some pattern of either list matches the text.\<close>

definition has_marker :: "runtime \<Rightarrow> str \<Rightarrow> bool" where
  "has_marker U t \<longleftrightarrow>
     any_pattern U AVAILABILITY_NEGATIVE t \<or> any_pattern U AVAILABILITY_POSITIVE t"

text \<open>
  The markers of the cell classifier: an availability icon, or one of the class names
  of the chain (\<open>day-active\<close> counting only together with \<open>aval\<close> in the markup).
\<close>

definition cell_marker :: "bool \<Rightarrow> bool \<Rightarrow> bool \<Rightarrow> str \<Rightarrow> str \<Rightarrow> bool" where
  "cell_marker available few_left sold_out button_class button_html \<longleftrightarrow>
     available \<or> few_left \<or> sold_out \<or>
     str_in (asc ''sold-out-layout'') button_class \<or>
     str_in (asc ''pointer-none'') button_class \<or>
     (str_in (asc ''day-active'') button_class \<and> str_in (asc ''aval'') button_html)"


definition both_screenshots_fail :: "date_world \<Rightarrow> bool" where
  "both_screenshots_fail w \<longleftrightarrow> isl (calendar_screenshot w) \<and> isl (page_screenshot w)"


section \<open>Example inputs\<close>

text \<open>
  A standard output that accepts everything. A button with a given class, empty markup
  and no icon; a cell that is this button; the answers of an iteration in which every
  \<open>print\<close> returns, every day selector gives the same answer, the next-month arrow is
  there, and the two screenshot calls give the stated answers.
\<close>

definition quiet :: "nat \<Rightarrow> unit res" where
  "quiet line = Inr ()"

definition example_button :: "str \<Rightarrow> button" where
  "example_button c =
     \<lparr> get_attribute_class = Inr (Some c), inner_html = Inr [],
       available_img = Inr False, sold_out_img = Inr False, few_left_img = Inr False \<rparr>"

definition example_cell :: "button \<Rightarrow> day_elem" where
  "example_cell b =
     \<lparr> tag_name = Inr (asc ''BUTTON''), self_button = b,
       ancestor_button = Inr None, walk_up = Inr None \<rparr>"

definition example_world :: "day_elem option res \<Rightarrow> unit res \<Rightarrow> unit res \<Rightarrow> date_world" where
  "example_world cell shot1 shot2 =
     \<lparr> print_at = quiet,
       body_text = Inr (asc ''Reservation calendar''),
       next_arrow = Inr (Some (Inr ())),
       prev_arrow = Inr True,
       wait_after_click = Inr (),
       day_query = (\<lambda>sel. cell),
       title_days = Inr [Inr (asc ''6''), Inr (asc '' 7 ''), Inr (asc ''Mon'')],
       calendar_screenshot = shot1,
       page_screenshot = shot2 \<rparr>"

definition example_frame :: "str \<Rightarrow> frame_world" where
  "example_frame body =
     \<lparr> frame_wait = Inr (), frame_body = Inr body, frame_next_btn = Inr (Some (Inr ())),
       frame_wait_click = Inr (), frame_body_after = Inr (asc ''October 2025'') \<rparr>"

definition example_page :: "str \<Rightarrow> page_world" where
  "example_page body =
     \<lparr> page_print_at = quiet, print_row = quiet,
       goto = Inr (), wait_loaded = Inr (),
       popup_query = Inr None, popup_wait = Inr (),
       iframe_query =
         Inr (Some \<lparr> get_attribute_src = Inr None,
                     content_frame = Inr (Some (example_frame body)) \<rparr>) \<rparr>"

definition example_config :: config where
  "example_config =
     \<lparr> DESKTOP_NOTIFY = True, TELEGRAM_BOT_TOKEN = Some (asc ''token''),
       TELEGRAM_CHAT_ID = Some (asc ''42''), EMAIL_FROM = None, EMAIL_TO = None,
       SMTP_PASS = None \<rparr>"

definition example_main :: "str \<Rightarrow> main_world" where
  "example_main body =
     \<lparr> main_print_at = quiet, main_goto = Inr (), main_wait = Inr (), main_body = Inr body \<rparr>"

section \<open>Facts about the search\<close>

lemma any_pattern_iff:
  "any_pattern U pats t \<longleftrightarrow> (\<exists>pat\<in>set pats. re_search U pat t \<noteq> None)"
  by (induction pats) auto

lemma rsearch_found_here:
  "first_alt U alts p t \<noteq> None \<Longrightarrow> rsearch U alts p t \<noteq> None"
  by (cases t) (auto split: option.splits)

lemma rsearch_append:
  "(\<And>p. first_alt U alts p t \<noteq> None) \<Longrightarrow> rsearch U alts p (a @ t) \<noteq> None"
proof (induction a arbitrary: p)
  case Nil
  then show ?case by (simp add: rsearch_found_here)
next
  case (Cons x a)
  then show ?case by (auto split: option.splits)
qed

lemma rsearch_oneof:
  "rsearch U [[One (OneOf cs)]] p t = None \<longleftrightarrow> (\<forall>x\<in>set t. x \<notin> set cs)"
  by (induction t arbitrary: p) (auto split: option.splits)

lemma positive_iff:
  "any_pattern U AVAILABILITY_POSITIVE t \<longleftrightarrow> (\<exists>x\<in>set t. x \<in> {9675, 9711, 9651})"
  by (auto simp: AVAILABILITY_POSITIVE_def re_search_def rsearch_oneof)

lemma cross_negative:
  "\<exists>x\<in>set t. x \<in> {215, 10005, 10006} \<Longrightarrow> any_pattern U AVAILABILITY_NEGATIVE t"
  unfolding any_pattern_iff AVAILABILITY_NEGATIVE_def re_search_def
  by (auto simp: rsearch_oneof)

lemma lower_space: "ascii_lower x = 32 \<Longrightarrow> x = 32"
  by (simp add: ascii_lower_def split: if_splits)

lemma lower_letter_not_space: "ascii_lower x = 111 \<Longrightarrow> \<not> py_isspace x"
  by (auto simp: ascii_lower_def py_isspace_def split: if_splits)

lemma sold_out_match:
  assumes "py_lower w = asc ''sold out''"
  shows "rmatch U (lits ''Sold'' @ [Star Space] @ lits ''out'') p (w @ b) \<noteq> None"
proof -
  from assms obtain x1 x2 x3 x4 x5 x6 x7 x8 where w: "w = [x1, x2, x3, x4, x5, x6, x7, x8]"
    and l: "ascii_lower x1 = 115" "ascii_lower x2 = 111" "ascii_lower x3 = 108"
      "ascii_lower x4 = 100" "ascii_lower x5 = 32" "ascii_lower x6 = 111"
      "ascii_lower x7 = 117" "ascii_lower x8 = 116"
    by (auto simp: py_lower_def asc_def map_eq_Cons_conv)
  have sp: "x5 = 32" using l(5) by (rule lower_space)
  have nsp: "\<not> py_isspace x6" using l(6) by (rule lower_letter_not_space)
  have c: "ci_eq 83 x1" "ci_eq 111 x2" "ci_eq 108 x3" "ci_eq 100 x4" "ci_eq 111 x6"
    "ci_eq 117 x7" "ci_eq 116 x8"
    using l by (simp_all add: ci_eq_def ascii_lower_def)
  have s32: "py_isspace 32" by (simp add: py_isspace_def)
  show ?thesis
    by (simp add: w lits_def c sp nsp s32)
qed

lemma sold_out_negative:
  assumes "py_lower w = asc ''sold out''"
  shows "any_pattern U AVAILABILITY_NEGATIVE (a @ w @ b)"
proof -
  have "\<And>p. first_alt U [lits ''Sold'' @ [Star Space] @ lits ''out''] p (w @ b) \<noteq> None"
    using sold_out_match[OF assms] by (auto split: option.splits)
  then have "re_search U [lits ''Sold'' @ [Star Space] @ lits ''out''] (a @ w @ b) \<noteq> None"
    unfolding re_search_def by (rule rsearch_append)
  then show ?thesis
    unfolding any_pattern_iff AVAILABILITY_NEGATIVE_def by simp
qed

lemmas re_eval = AVAILABILITY_NEGATIVE_def AVAILABILITY_POSITIVE_def re_search_def lits_def
  asc_def ci_eq_def ascii_lower_def py_isspace_def

lemma welcome_no_marker:
  "\<not> any_pattern U AVAILABILITY_NEGATIVE (asc ''Welcome to the museum'')"
  "\<not> any_pattern U AVAILABILITY_POSITIVE (asc ''Welcome to the museum'')"
  by (simp_all add: re_eval)

section \<open>Facts about the effects of the loop\<close>

lemma failure_simps [simp]: "failure (Inr u) = None" "failure (Inl e) = Some e"
  by (simp_all add: failure_def)

lemma navigate_try_events:
  "fst (navigate_try nav y m w) = [] \<or> fst (navigate_try nav y m w) = [Click_next]"
  by (simp add: navigate_try_def split: sum.splits option.splits)


lemma navigate_month_fst: "fst (navigate_month nav y m w) = fst (navigate_try nav y m w)"
  by (cases "navigate_try nav y m w") (auto simp: navigate_month_def split: option.splits)

lemma navigate_month_events:
  "fst (navigate_month nav y m w) = [] \<or> fst (navigate_month nav y m w) = [Click_next]"
  using navigate_try_events[of nav y m w] by (simp add: navigate_month_fst)


lemma month_try_events:
  "fst (month_try U pr f) = [] \<or> fst (month_try U pr f) = [Click_next]"
  by (simp add: month_try_def split: sum.splits option.splits prod.splits)

lemma month_navigation_fst: "fst (month_navigation U pr f) = fst (month_try U pr f)"
  by (cases "month_try U pr f") (auto simp: month_navigation_def split: option.splits)

lemma locate_try_events:
  "fst (locate_try U pw) = [] \<or> fst (locate_try U pw) = [Click_next]"
  using month_try_events
  by (simp add: locate_try_def month_navigation_fst split: sum.splits option.splits)

lemma locate_calendar_fst: "fst (locate_calendar U pw) = fst (locate_try U pw)"
  by (cases "locate_try U pw") (auto simp: locate_calendar_def split: option.splits)

lemma locate_calendar_events:
  "fst (locate_calendar U pw) = [] \<or> fst (locate_calendar U pw) = [Click_next]"
  using locate_try_events[of U pw] by (simp add: locate_calendar_fst)

lemma not_found_events:
  "not_found U w = (v, ev, es, x) \<Longrightarrow> es = [] \<or> (\<exists>days. es = [Listing days])"
  by (auto simp: not_found_def split: sum.splits)

lemma try_inspect_events:
  "try_inspect U day w = (v, ev, es, x) \<Longrightarrow> es = [] \<or> (\<exists>days. es = [Listing days])"
  by (auto simp: try_inspect_def split: sum.splits option.splits prod.splits
      dest: not_found_events)

lemma inspect_date_events:
  "inspect_date U day w = (v, ev, es, x) \<Longrightarrow> es = [] \<or> (\<exists>days. es = [Listing days])"
  by (auto simp: inspect_date_def split: prod.splits option.splits sum.splits
      dest: try_inspect_events)

lemma take_screenshot_events:
  "take_screenshot d w = (es, x) \<Longrightarrow> \<forall>e\<in>set es. loop_event e \<and> e \<noteq> Click_next"
  by (auto simp: take_screenshot_def split: sum.splits)

lemma check_parsed_fst:
  "\<exists>es2 es3. fst (check_parsed U nav d (y, m, dd) w) = fst (navigate_month nav y m w) @ es2 @ es3
     \<and> (es2 = [] \<or> es2 = fst (snd (snd (inspect_date U dd w))))
     \<and> (es3 = [] \<or> es3 = fst (take_screenshot d w))"
proof -
  obtain es1 x1 where n: "navigate_month nav y m w = (es1, x1)" by (cases "navigate_month nav y m w")
  obtain v ev es2 x2 where i: "inspect_date U dd w = (v, ev, es2, x2)"
    by (cases "inspect_date U dd w") auto
  obtain es3 x3 where s: "take_screenshot d w = (es3, x3)" by (cases "take_screenshot d w")
  show ?thesis
    by (cases x1; cases x2; cases x3) (auto simp: check_parsed_def n i s)
qed

lemma check_parsed_events:
  "\<forall>e\<in>set (fst (check_parsed U nav d ymd w)). loop_event e"
proof -
  obtain y m dd where ymd: "ymd = (y, m, dd)" by (cases ymd)
  obtain v ev es2 x2 where i: "inspect_date U dd w = (v, ev, es2, x2)"
    by (cases "inspect_date U dd w") auto
  obtain es3 x3 where s: "take_screenshot d w = (es3, x3)" by (cases "take_screenshot d w")
  from check_parsed_fst[of U nav d y m dd w] obtain a b where
    f: "fst (check_parsed U nav d (y, m, dd) w) = fst (navigate_month nav y m w) @ a @ b"
    and a: "a = [] \<or> a = es2" and b: "b = [] \<or> b = es3"
    using i s by auto
  have "\<forall>e\<in>set (fst (navigate_month nav y m w)). loop_event e"
    using navigate_month_events[of nav y m w] by auto
  moreover have "\<forall>e\<in>set a. loop_event e"
    using a inspect_date_events[OF i] by auto
  moreover have "\<forall>e\<in>set b. loop_event e"
    using b take_screenshot_events[OF s] by auto
  ultimately show ?thesis unfolding ymd f by auto
qed

lemma check_date_fst:
  "fst (check_date U nav d w) = [] \<or>
   (\<exists>ymd. parse_date U d = Some ymd \<and> print_at w 333 = Inr () \<and> print_at w 342 = Inr ()
      \<and> check_date U nav d w = check_parsed U nav d ymd w)"
  by (auto simp: check_date_def split: sum.splits option.splits)

lemma check_date_events:
  "check_date U nav d w = (es, x) \<Longrightarrow> \<forall>e\<in>set es. loop_event e"
proof -
  assume a: "check_date U nav d w = (es, x)"
  from check_date_fst[of U nav d w] show ?thesis
  proof
    assume "fst (check_date U nav d w) = []"
    with a show ?thesis by simp
  next
    assume "\<exists>ymd. parse_date U d = Some ymd \<and> print_at w 333 = Inr () \<and> print_at w 342 = Inr ()
      \<and> check_date U nav d w = check_parsed U nav d ymd w"
    then obtain ymd where "check_date U nav d w = check_parsed U nav d ymd w" by blast
    with a check_parsed_events[of U nav d ymd w] show ?thesis by simp
  qed
qed

lemma check_dates_events:
  "check_dates U nav ds = (es, x) \<Longrightarrow> \<forall>e\<in>set es. loop_event e"
proof (induction ds arbitrary: es x)
  case Nil
  then show ?case by simp
next
  case (Cons dw ds)
  obtain d w where dw: "dw = (d, w)" by (cases dw)
  obtain es1 x1 where c1: "check_date U nav d w = (es1, x1)" by (cases "check_date U nav d w")
  obtain es2 x2 where c2: "check_dates U nav ds = (es2, x2)" by (cases "check_dates U nav ds")
  from Cons.prems dw c1 c2 have "set es \<subseteq> set es1 \<union> set es2"
    by (auto split: sum.splits)
  with check_date_events[OF c1] Cons.IH[OF c2] show ?case by auto
qed

section \<open>Facts about the results of the loop\<close>

lemma take_screenshot_fail:
  "snd (take_screenshot d w) = None \<longleftrightarrow> \<not> both_screenshots_fail w"
  by (auto simp: take_screenshot_def both_screenshots_fail_def split: sum.splits)

lemma check_parsed_result:
  assumes "check_parsed U nav d (y, m, dd) w = (es, Inr r)"
  shows "snd (navigate_month nav y m w) = None
     \<and> (\<exists>v ev es2. inspect_date U dd w = (v, ev, es2, None) \<and> r = make_result d v ev
           \<and> es = fst (navigate_month nav y m w) @ es2 @ fst (take_screenshot d w))
     \<and> snd (take_screenshot d w) = None"
proof -
  obtain es1 x1 where n: "navigate_month nav y m w = (es1, x1)" by (cases "navigate_month nav y m w")
  obtain v ev es2 x2 where i: "inspect_date U dd w = (v, ev, es2, x2)"
    by (cases "inspect_date U dd w") auto
  obtain es3 x3 where s: "take_screenshot d w = (es3, x3)" by (cases "take_screenshot d w")
  from assms show ?thesis
    by (cases x1; cases x2; cases x3) (auto simp: check_parsed_def n i s)
qed


lemma check_date_result:
  assumes "check_date U nav d w = (es, Inr r)"
  shows "print_at w 333 = Inr () \<and> print_at w 342 = Inr ()
     \<and> (\<exists>y m dd. parse_date U d = Some (y, m, dd)
          \<and> check_parsed U nav d (y, m, dd) w = (es, Inr r))"
  using assms by (auto simp: check_date_def split: sum.splits option.splits)

lemma make_result_simps [simp]:
  "date (make_result d v ev) = d" "verdict (make_result d v ev) = v"
  "evidence (make_result d v ev) = take 300 (py_join (asc ''; '') ev)"
  by (simp_all add: make_result_def)

lemma check_date_entry:
  assumes "snd (check_date U nav d w) = Inr r"
  shows "date r = d \<and> length (evidence r) \<le> 300 \<and> parse_date U d \<noteq> None
     \<and> \<not> both_screenshots_fail w"
proof -
  obtain es where c: "check_date U nav d w = (es, Inr r)"
    using assms by (cases "check_date U nav d w") simp
  from check_date_result[OF c] obtain y m dd where p: "parse_date U d = Some (y, m, dd)"
    and k: "check_parsed U nav d (y, m, dd) w = (es, Inr r)" by blast
  from check_parsed_result[OF k] take_screenshot_fail[of d w] p show ?thesis by auto
qed









lemma check_dates_only:
  "snd (check_dates U nav ds) = Inr rs \<Longrightarrow>
     \<forall>dw\<in>set ds. parse_date U (fst dw) \<noteq> None \<and> \<not> both_screenshots_fail (snd dw)"
proof (induction ds arbitrary: rs)
  case Nil
  show ?case by simp
next
  case (Cons dw ds)
  obtain d w where dw: "dw = (d, w)" by (cases dw)
  obtain es1 x1 where c1: "check_date U nav d w = (es1, x1)" by (cases "check_date U nav d w")
  obtain es2 x2 where c2: "check_dates U nav ds = (es2, x2)" by (cases "check_dates U nav ds")
  from Cons.prems dw c1 c2 obtain r rs' where x: "x1 = Inr r" "x2 = Inr rs'" "rs = r # rs'"
    by (cases x1; cases x2) auto
  have "parse_date U d \<noteq> None \<and> \<not> both_screenshots_fail w"
    using check_date_entry[of U nav d w r] c1 x by simp
  moreover have "\<forall>dw\<in>set ds. parse_date U (fst dw) \<noteq> None \<and> \<not> both_screenshots_fail (snd dw)"
    using Cons.IH[of rs'] c2 x by simp
  ultimately show ?case using dw by simp
qed

lemma loop_event_plain: "loop_event e \<Longrightarrow> \<not> is_summary e \<and> \<not> is_notify e"
  by (cases e) auto

lemma check_dates_plain:
  "check_dates U nav ds = (es, x) \<Longrightarrow> \<forall>e\<in>set es. \<not> is_summary e \<and> \<not> is_notify e"
proof -
  assume "check_dates U nav ds = (es, x)"
  from check_dates_events[OF this] loop_event_plain show ?thesis by blast
qed

section \<open>Facts about clicks\<close>



lemma clicks_simps: "clicks [] = 0" "clicks [Click_next] = 1"
  by (simp_all add: clicks_def)








lemma locate_calendar_clicks: "clicks (fst (locate_calendar U pw)) \<le> 1"
  using locate_calendar_events[of U pw] by (auto simp: clicks_simps)

section \<open>The claims\<close>

text \<open>
  Claim C1. \<open>looks_available\<close> looks at the negative patterns first: when one of them
  matches, the value is \<open>False\<close>. When none matches, the value says whether a positive
  pattern matches, that is, whether the text holds an open circle (U+25CB, U+25EF) or a
  triangle (U+25B3); so it is \<open>False\<close> when neither kind of marker is there. The function
  is total: no input makes it raise. A cross (U+00D7, U+2715, U+2716) anywhere in the
  text, or the words \<open>sold out\<close> in any mix of upper and lower case, give \<open>False\<close>
  whatever else the text holds; in particular \<open>Status: Sold out\<close> followed by an open
  circle does, and so does \<open>Welcome to the museum\<close>.
\<close>

theorem looks_available_negative_first:
  "((\<exists>pat\<in>set AVAILABILITY_NEGATIVE. re_search U pat t \<noteq> None) \<longrightarrow> looks_available U t = False)
   \<and> ((\<forall>pat\<in>set AVAILABILITY_NEGATIVE. re_search U pat t = None) \<longrightarrow>
        looks_available U t = (\<exists>x\<in>set t. x \<in> {9675, 9711, 9651}))
   \<and> ((\<exists>x\<in>set t. x \<in> {215, 10005, 10006}) \<longrightarrow> looks_available U t = False)
   \<and> (py_lower w = asc ''sold out'' \<longrightarrow> looks_available U (a @ w @ b) = False)
   \<and> looks_available U (asc ''Status: Sold out '' @ [9675]) = False
   \<and> looks_available U (asc ''Welcome to the museum'') = False"
proof (intro conjI impI)
  assume "\<exists>pat\<in>set AVAILABILITY_NEGATIVE. re_search U pat t \<noteq> None"
  then show "looks_available U t = False"
    by (simp add: looks_available_def any_pattern_iff)
next
  assume "\<forall>pat\<in>set AVAILABILITY_NEGATIVE. re_search U pat t = None"
  then show "looks_available U t = (\<exists>x\<in>set t. x \<in> {9675, 9711, 9651})"
    unfolding looks_available_def positive_iff by (simp add: any_pattern_iff)
next
  assume "\<exists>x\<in>set t. x \<in> {215, 10005, 10006}"
  then show "looks_available U t = False"
    by (simp add: looks_available_def cross_negative)
next
  assume "py_lower w = asc ''sold out''"
  then show "looks_available U (a @ w @ b) = False"
    by (simp add: looks_available_def sold_out_negative)
next
  have "py_lower (asc ''Sold out'') = asc ''sold out''"
    by (simp add: py_lower_def asc_def ascii_lower_def)
  then have "any_pattern U AVAILABILITY_NEGATIVE (asc ''Status: '' @ asc ''Sold out'' @ (32 # [9675]))"
    by (rule sold_out_negative)
  then show "looks_available U (asc ''Status: Sold out '' @ [9675]) = False"
    by (simp add: looks_available_def asc_def)
next
  show "looks_available U (asc ''Welcome to the museum'') = False"
    by (simp add: looks_available_def welcome_no_marker)
qed

theorem looks_available_negative_first_witness:
  "(\<exists>pat\<in>set AVAILABILITY_NEGATIVE. re_search ascii_rt pat (asc ''Now Fully booked '' @ [9675]) \<noteq> None)
   \<and> looks_available ascii_rt (asc ''Now Fully booked '' @ [9675]) = False
   \<and> \<not> (\<exists>pat\<in>set AVAILABILITY_NEGATIVE. re_search ascii_rt pat (asc ''few slots '' @ [9651]) \<noteq> None)
   \<and> looks_available ascii_rt (asc ''few slots '' @ [9651]) = True
   \<and> (\<exists>x\<in>set (asc ''closed '' @ [10005, 9675]). x \<in> {215, 10005, 10006})
   \<and> looks_available ascii_rt (asc ''closed '' @ [10005, 9675]) = False
   \<and> py_lower (asc ''SOLD OUT'') = asc ''sold out''
   \<and> looks_available ascii_rt (asc ''1 Oct: '' @ asc ''SOLD OUT'' @ [32, 9675]) = False"
proof -
  have h1: "\<exists>pat\<in>set AVAILABILITY_NEGATIVE. re_search ascii_rt pat (asc ''Now Fully booked '' @ [9675]) \<noteq> None"
    by (simp add: re_eval)
  have h2: "\<forall>pat\<in>set AVAILABILITY_NEGATIVE. re_search ascii_rt pat (asc ''few slots '' @ [9651]) = None"
    by (simp add: re_eval)
  have h3: "\<exists>x\<in>set (asc ''closed '' @ [10005, 9675]). x \<in> {215, 10005, 10006}"
    by (simp add: asc_def)
  have h4: "py_lower (asc ''SOLD OUT'') = asc ''sold out''"
    by (simp add: py_lower_def asc_def ascii_lower_def)
  have h5: "\<exists>x\<in>set (asc ''few slots '' @ [9651]). x \<in> {9675, 9711, 9651}"
    by (simp add: asc_def)
  from looks_available_negative_first [of ascii_rt "asc ''Now Fully booked '' @ [9675]"] h1
  have c1: "looks_available ascii_rt (asc ''Now Fully booked '' @ [9675]) = False" by blast
  from looks_available_negative_first [of ascii_rt "asc ''few slots '' @ [9651]"] h2 h5
  have c2: "looks_available ascii_rt (asc ''few slots '' @ [9651]) = True" by blast
  from looks_available_negative_first [of ascii_rt "asc ''closed '' @ [10005, 9675]"] h3
  have c3: "looks_available ascii_rt (asc ''closed '' @ [10005, 9675]) = False" by blast
  from looks_available_negative_first [of ascii_rt _ "asc ''SOLD OUT''" "asc ''1 Oct: ''" "[32, 9675]"] h4
  have c4: "looks_available ascii_rt (asc ''1 Oct: '' @ asc ''SOLD OUT'' @ [32, 9675]) = False" by blast
  from h2 have h2': "\<not> (\<exists>pat\<in>set AVAILABILITY_NEGATIVE. re_search ascii_rt pat (asc ''few slots '' @ [9651]) \<noteq> None)"
    by simp
  show ?thesis
    by (intro conjI) (rule h1 c1 h2' c2 h3 c3 h4 c4)+
qed

section \<open>Facts about the cell classifier\<close>

lemma read_button_ok:
  assumes "get_attribute_class b = Inr c" "inner_html b = Inr h" "available_img b = Inr av"
    "sold_out_img b = Inr so" "few_left_img b = Inr fl"
    "pr 419 = Inr ()" "pr 420 = Inr ()" "pr 421 = Inr ()"
  shows "read_button pr b =
           Inr (av, fl, so, (case c of None \<Rightarrow> [] | Some k \<Rightarrow> k), take 200 h)"
  using assms by (simp add: read_button_def)

lemma read_button_Inr:
  assumes "read_button pr b = Inr (av, fl, so, cl, mk)"
  shows "\<exists>c h. get_attribute_class b = Inr c \<and> inner_html b = Inr h
           \<and> available_img b = Inr av \<and> sold_out_img b = Inr so \<and> few_left_img b = Inr fl
           \<and> cl = (case c of None \<Rightarrow> [] | Some k \<Rightarrow> k) \<and> mk = take 200 h"
  using assms by (auto simp: read_button_def split: sum.splits)

lemma classify_marker:
  "fst (classify av fl so c h) \<noteq> UNSURE \<Longrightarrow> cell_marker av fl so c h"
  by (auto simp: classify_def cell_marker_def split: if_splits)

lemma classify_button_read:
  assumes "read_button pr b = Inr (av, fl, so, cl, mk)"
  shows "classify_button pr b =
           (fst (classify av fl so cl mk), [fst (snd (classify av fl so cl mk))],
            failure (pr (snd (snd (classify av fl so cl mk)))))"
  using assms by (simp add: classify_button_def split: prod.splits)

lemma classify_button_verdict:
  assumes "fst (classify_button pr b) \<noteq> UNSURE"
  shows "\<exists>c h av so fl. get_attribute_class b = Inr c \<and> inner_html b = Inr h
           \<and> available_img b = Inr av \<and> sold_out_img b = Inr so \<and> few_left_img b = Inr fl
           \<and> cell_marker av fl so (case c of None \<Rightarrow> [] | Some k \<Rightarrow> k) (take 200 h)"
proof (cases "read_button pr b")
  case (Inl e)
  with assms show ?thesis by (simp add: classify_button_def)
next
  case (Inr t)
  obtain av fl so cl mk where t: "t = (av, fl, so, cl, mk)" by (cases t) auto
  from Inr t have r: "read_button pr b = Inr (av, fl, so, cl, mk)" by simp
  from assms have "fst (classify av fl so cl mk) \<noteq> UNSURE"
    by (simp add: classify_button_read[OF r])
  then have "cell_marker av fl so cl mk" by (rule classify_marker)
  with read_button_Inr[OF r] show ?thesis by blast
qed

lemma try_inspect_found:
  assumes "first_found (day_query w) (print_at w) (day_selectors day) = Inr (Some el)"
    "find_button el = Inr (Some b)"
  shows "try_inspect U day w
           = (fst (classify_button (print_at w) b), fst (snd (classify_button (print_at w) b)), [],
              snd (snd (classify_button (print_at w) b)))"
  using assms by (simp add: try_inspect_def split: prod.splits)

lemma not_found_verdict: "fst (not_found U w) = UNSURE"
  by (simp add: not_found_def split: sum.splits)

lemma try_inspect_verdict:
  assumes "fst (try_inspect U day w) \<noteq> UNSURE"
  shows "\<exists>el b. first_found (day_query w) (print_at w) (day_selectors day) = Inr (Some el)
           \<and> find_button el = Inr (Some b)
           \<and> fst (classify_button (print_at w) b) \<noteq> UNSURE"
  using assms not_found_verdict[of U w]
  by (auto simp: try_inspect_def split: sum.splits option.splits prod.splits)

lemma inspect_date_fst: "fst (inspect_date U day w) = fst (try_inspect U day w)"
  by (cases "try_inspect U day w")
    (auto simp: inspect_date_def split: option.splits sum.splits)

section \<open>Facts about the whole run\<close>

lemma print_rows_prefix:
  "print_rows pr k rs = (printed, x) \<Longrightarrow>
     set printed \<subseteq> set rs \<and> (x = None \<longrightarrow> printed = rs)"
proof (induction rs arbitrary: k printed x)
  case Nil
  then show ?case by simp
next
  case (Cons r rs)
  show ?case
  proof (cases "pr k")
    case (Inl e)
    with Cons.prems show ?thesis by auto
  next
    case (Inr u)
    obtain p y where t: "print_rows pr (Suc k) rs = (p, y)" by (cases "print_rows pr (Suc k) rs")
    from Cons.prems Inr t have "printed = r # p" "x = y" by simp_all
    with Cons.IH[OF t] show ?thesis by auto
  qed
qed


lemma print_summary_events:
  assumes "print_summary pw rs = (es1, out)"
  shows "(es1 = [] \<and> out \<noteq> Exit_ok) \<or>
         (\<exists>printed. es1 = [Summary printed] \<and> set printed \<subseteq> set rs
            \<and> (out = Exit_ok \<longrightarrow> printed = rs))"
proof (cases "page_print_at pw 483")
  case (Inl e)
  with assms show ?thesis by (auto simp: print_summary_def)
next
  case (Inr u)
  obtain p y where t: "print_rows (print_row pw) 0 rs = (p, y)"
    by (cases "print_rows (print_row pw) 0 rs")
  from print_rows_prefix[OF t] assms Inr t show ?thesis
    by (cases y) (auto simp: print_summary_def)
qed

lemma before_loop_events:
  "fst (before_loop U pw) = [] \<or> fst (before_loop U pw) = [Click_next]"
proof -
  obtain es0 nav x where l: "locate_calendar U pw = (es0, nav, x)"
    by (cases "locate_calendar U pw") auto
  have "fst (before_loop U pw) = [] \<or> fst (before_loop U pw) = es0"
    by (cases x) (auto simp: before_loop_def l split: sum.splits option.splits)
  with locate_calendar_events[of U pw] l show ?thesis by auto
qed


lemma multi_date_cases:
  obtains (early) es0 c where "before_loop U pw = (es0, Inl c)"
      "multi_date U pw ds = (es0, Traceback c)"
  | (loop) es0 nav es c where "before_loop U pw = (es0, Inr nav)"
      "check_dates U nav ds = (es, Inl c)" "multi_date U pw ds = (es0 @ es, Traceback c)"
  | (summary) es0 nav es rs es1 out where "before_loop U pw = (es0, Inr nav)"
      "check_dates U nav ds = (es, Inr rs)" "print_summary pw rs = (es1, out)"
      "multi_date U pw ds = (es0 @ es @ es1, out)"
proof -
  obtain es0 x where b: "before_loop U pw = (es0, x)" by (cases "before_loop U pw")
  show thesis
  proof (cases x)
    case (Inl c)
    with b early show ?thesis by (simp add: multi_date_def)
  next
    case (Inr nav)
    obtain es y where c: "check_dates U nav ds = (es, y)" by (cases "check_dates U nav ds")
    show ?thesis
    proof (cases y)
      case (Inl c')
      with b Inr c loop show ?thesis by (simp add: multi_date_def)
    next
      case r: (Inr rs)
      obtain es1 out where p: "print_summary pw rs = (es1, out)" by (cases "print_summary pw rs")
      with b Inr c r summary show ?thesis by (simp add: multi_date_def)
    qed
  qed
qed

lemma before_loop_plain:
  "\<forall>e\<in>set (fst (before_loop U pw)). e = Click_next"
  using before_loop_events[of U pw] by auto

text \<open>
  Claim C2, as amended. For a button whose reads and whose three \<open>print\<close> calls before
  the chain (lines 419-421) succeed, the first rule of the chain that applies decides:
  the \<open>available.svg\<close> icon and then the \<open>only_one_left.svg\<close> icon give \<open>AVAILABLE\<close>;
  the \<open>sold_out.svg\<close> icon, then a class containing \<open>sold-out-layout\<close>, then a class
  containing \<open>pointer-none\<close> give \<open>UNAVAILABLE\<close>; a class containing \<open>day-active\<close>
  gives \<open>AVAILABLE\<close> when the first 200 characters of the inner markup contain
  \<open>aval\<close> and \<open>UNSURE\<close> otherwise; anything else is \<open>UNSURE\<close>. Each rule leaves its own
  evidence text, \<open>sold-out-layout class\<close> for the class of that name. The \<open>print\<close>
  that ends the branch comes after both; the last component says what it raised, if
  anything. When it returns, the inspection of a date whose cell and button are found
  gives this verdict with this one evidence text.
\<close>

theorem cell_classifier_priority:
  assumes "get_attribute_class b = Inr c" and "inner_html b = Inr h"
    and "available_img b = Inr av" and "sold_out_img b = Inr so" and "few_left_img b = Inr fl"
    and "pr 419 = Inr ()" and "pr 420 = Inr ()" and "pr 421 = Inr ()"
    and "cl = (case c of None \<Rightarrow> [] | Some k \<Rightarrow> k)" and "mk = take 200 h"
  shows "(av \<longrightarrow> classify_button pr b
            = (AVAILABLE, [asc ''available.svg found''], failure (pr 427)))
    \<and> (\<not> av \<and> fl \<longrightarrow> classify_button pr b
            = (AVAILABLE, [asc ''only_one_left.svg found''], failure (pr 431)))
    \<and> (\<not> av \<and> \<not> fl \<and> so \<longrightarrow> classify_button pr b
            = (UNAVAILABLE, [asc ''sold_out.svg found''], failure (pr 435)))
    \<and> (\<not> av \<and> \<not> fl \<and> \<not> so \<and> str_in (asc ''sold-out-layout'') cl \<longrightarrow>
          classify_button pr b
            = (UNAVAILABLE, [asc ''sold-out-layout class''], failure (pr 439)))
    \<and> (\<not> av \<and> \<not> fl \<and> \<not> so \<and> \<not> str_in (asc ''sold-out-layout'') cl
          \<and> str_in (asc ''pointer-none'') cl \<longrightarrow>
          classify_button pr b
            = (UNAVAILABLE, [asc ''pointer-none class (closed)''], failure (pr 443)))
    \<and> (\<not> av \<and> \<not> fl \<and> \<not> so \<and> \<not> str_in (asc ''sold-out-layout'') cl
          \<and> \<not> str_in (asc ''pointer-none'') cl \<and> str_in (asc ''day-active'') cl
          \<and> str_in (asc ''aval'') mk \<longrightarrow>
          classify_button pr b
            = (AVAILABLE, [asc ''day-active + aval found''], failure (pr 449)))
    \<and> (\<not> av \<and> \<not> fl \<and> \<not> so \<and> \<not> str_in (asc ''sold-out-layout'') cl
          \<and> \<not> str_in (asc ''pointer-none'') cl \<and> str_in (asc ''day-active'') cl
          \<and> \<not> str_in (asc ''aval'') mk \<longrightarrow>
          classify_button pr b
            = (UNSURE, [asc ''day-active but no clear availability indicator''], failure (pr 453)))
    \<and> (\<not> av \<and> \<not> fl \<and> \<not> so \<and> \<not> str_in (asc ''sold-out-layout'') cl
          \<and> \<not> str_in (asc ''pointer-none'') cl \<and> \<not> str_in (asc ''day-active'') cl \<longrightarrow>
          classify_button pr b
            = (UNSURE, [asc ''unknown button state: '' @ cl], failure (pr 456)))
    \<and> (first_found (day_query w) (print_at w) (day_selectors day) = Inr (Some el)
          \<and> find_button el = Inr (Some b) \<and> pr = print_at w
          \<and> pr (snd (snd (classify av fl so cl mk))) = Inr () \<longrightarrow>
          inspect_date U day w
            = (fst (classify av fl so cl mk), [fst (snd (classify av fl so cl mk))], [], None))"
proof -
  have r: "read_button pr b = Inr (av, fl, so, cl, mk)"
    using assms by (simp add: read_button_ok)
  note k = classify_button_read[OF r]
  have i: "inspect_date U day w
            = (fst (classify av fl so cl mk), [fst (snd (classify av fl so cl mk))], [], None)"
    if "first_found (day_query w) (print_at w) (day_selectors day) = Inr (Some el)"
      "find_button el = Inr (Some b)" "pr = print_at w"
      "pr (snd (snd (classify av fl so cl mk))) = Inr ()"
    using that k try_inspect_found[of w day el b U]
    by (simp add: inspect_date_def)
  have c: "classify_button pr b
      = (if av then (AVAILABLE, [asc ''available.svg found''], failure (pr 427))
         else if fl then (AVAILABLE, [asc ''only_one_left.svg found''], failure (pr 431))
         else if so then (UNAVAILABLE, [asc ''sold_out.svg found''], failure (pr 435))
         else if str_in (asc ''sold-out-layout'') cl
           then (UNAVAILABLE, [asc ''sold-out-layout class''], failure (pr 439))
         else if str_in (asc ''pointer-none'') cl
           then (UNAVAILABLE, [asc ''pointer-none class (closed)''], failure (pr 443))
         else if str_in (asc ''day-active'') cl
           then (if str_in (asc ''aval'') mk
                 then (AVAILABLE, [asc ''day-active + aval found''], failure (pr 449))
                 else (UNSURE, [asc ''day-active but no clear availability indicator''],
                       failure (pr 453)))
         else (UNSURE, [asc ''unknown button state: '' @ cl], failure (pr 456)))"
    unfolding k by (simp add: classify_def)
  show ?thesis
  proof (intro conjI)
    show "first_found (day_query w) (print_at w) (day_selectors day) = Inr (Some el)
          \<and> find_button el = Inr (Some b) \<and> pr = print_at w
          \<and> pr (snd (snd (classify av fl so cl mk))) = Inr () \<longrightarrow>
          inspect_date U day w
            = (fst (classify av fl so cl mk), [fst (snd (classify av fl so cl mk))], [], None)"
      using i by blast
  qed (simp_all add: c)
qed

theorem cell_classifier_priority_witness:
  "get_attribute_class (example_button (asc ''day-item sold-out-layout'')) = Inr (Some (asc ''day-item sold-out-layout''))
   \<and> inner_html (example_button (asc ''day-item sold-out-layout'')) = Inr []
   \<and> available_img (example_button (asc ''day-item sold-out-layout'')) = Inr False
   \<and> sold_out_img (example_button (asc ''day-item sold-out-layout'')) = Inr False
   \<and> few_left_img (example_button (asc ''day-item sold-out-layout'')) = Inr False
   \<and> quiet 419 = Inr () \<and> quiet 420 = Inr () \<and> quiet 421 = Inr ()
   \<and> str_in (asc ''sold-out-layout'') (asc ''day-item sold-out-layout'')
   \<and> classify_button quiet (example_button (asc ''day-item sold-out-layout''))
        = (UNAVAILABLE, [asc ''sold-out-layout class''], None)"
proof -
  let ?c = "asc ''day-item sold-out-layout''"
  have h: "get_attribute_class (example_button ?c) = Inr (Some ?c)"
    "inner_html (example_button ?c) = Inr []"
    "available_img (example_button ?c) = Inr False"
    "sold_out_img (example_button ?c) = Inr False"
    "few_left_img (example_button ?c) = Inr False"
    by (simp_all add: example_button_def)
  have q: "quiet 419 = Inr ()" "quiet 420 = Inr ()" "quiet 421 = Inr ()"
    by (simp_all add: quiet_def)
  have s: "str_in (asc ''sold-out-layout'') ?c"
    by (simp add: asc_def)
  have "classify_button quiet (example_button ?c)
          = (UNAVAILABLE, [asc ''sold-out-layout class''], failure (quiet 439))"
    using cell_classifier_priority[OF h q, of ?c "[]"] s by simp
  then have k: "classify_button quiet (example_button ?c)
          = (UNAVAILABLE, [asc ''sold-out-layout class''], None)"
    by (simp add: quiet_def)
  show ?thesis
    by (intro conjI) (rule h q s k)+
qed

text \<open>
  Claim C2 as stated fails: a button without icons whose class contains
  \<open>pointer-disabled\<close>, or \<open>sold-out\<close> without \<open>-layout\<close>, is classified \<open>UNSURE\<close>,
  also when every \<open>print\<close> returns.
\<close>

theorem cell_classifier_counterexample:
  "str_in (asc ''pointer-disabled'') (asc ''day pointer-disabled'')
   \<and> classify_button quiet (example_button (asc ''day pointer-disabled''))
        = (UNSURE, [asc ''unknown button state: day pointer-disabled''], None)
   \<and> str_in (asc ''sold-out'') (asc ''day sold-out'')
   \<and> classify_button quiet (example_button (asc ''day sold-out''))
        = (UNSURE, [asc ''unknown button state: day sold-out''], None)"
  by (simp add: classify_button_def read_button_def example_button_def classify_def asc_def
      quiet_def)

text \<open>
  Claim C7, as amended. On the cell-level path a verdict other than \<open>UNSURE\<close> is
  produced only when the cell and its button were found, every read of the button
  succeeded and one of the markers of the chain is there. The full-page path has two
  outcomes only: it is \<open>AVAILABLE\<close> only when a positive pattern matches and no negative
  one does, it is never \<open>UNSURE\<close>, and a text without any marker is \<open>UNAVAILABLE\<close>.
\<close>

theorem verdict_needs_marker:
  "(fst (inspect_date U day w) \<noteq> UNSURE \<longrightarrow>
      (\<exists>el b c h av so fl.
         first_found (day_query w) (print_at w) (day_selectors day) = Inr (Some el)
         \<and> find_button el = Inr (Some b)
         \<and> get_attribute_class b = Inr c \<and> inner_html b = Inr h
         \<and> available_img b = Inr av \<and> sold_out_img b = Inr so \<and> few_left_img b = Inr fl
         \<and> cell_marker av fl so (case c of None \<Rightarrow> [] | Some k \<Rightarrow> k) (take 200 h)))
   \<and> (heuristic_verdict (looks_available U t) = AVAILABLE \<longrightarrow>
         any_pattern U AVAILABILITY_POSITIVE t \<and> \<not> any_pattern U AVAILABILITY_NEGATIVE t)
   \<and> heuristic_verdict (looks_available U t) \<noteq> UNSURE
   \<and> (\<not> has_marker U t \<longrightarrow> heuristic_verdict (looks_available U t) = UNAVAILABLE)"
proof (intro conjI impI)
  assume a: "fst (inspect_date U day w) \<noteq> UNSURE"
  then have "fst (try_inspect U day w) \<noteq> UNSURE" by (simp add: inspect_date_fst)
  from try_inspect_verdict[OF this] obtain el b where
    f: "first_found (day_query w) (print_at w) (day_selectors day) = Inr (Some el)"
    and g: "find_button el = Inr (Some b)"
    and k: "fst (classify_button (print_at w) b) \<noteq> UNSURE" by blast
  from classify_button_verdict[OF k] obtain c h av so fl where
    r: "get_attribute_class b = Inr c" "inner_html b = Inr h" "available_img b = Inr av"
      "sold_out_img b = Inr so" "few_left_img b = Inr fl"
    and m: "cell_marker av fl so (case c of None \<Rightarrow> [] | Some k \<Rightarrow> k) (take 200 h)"
    by blast
  with f g show "\<exists>el b c h av so fl.
         first_found (day_query w) (print_at w) (day_selectors day) = Inr (Some el)
         \<and> find_button el = Inr (Some b)
         \<and> get_attribute_class b = Inr c \<and> inner_html b = Inr h
         \<and> available_img b = Inr av \<and> sold_out_img b = Inr so \<and> few_left_img b = Inr fl
         \<and> cell_marker av fl so (case c of None \<Rightarrow> [] | Some k \<Rightarrow> k) (take 200 h)"
    by blast
next
  assume "heuristic_verdict (looks_available U t) = AVAILABLE"
  then show "any_pattern U AVAILABILITY_POSITIVE t"
    by (simp add: heuristic_verdict_def looks_available_def split: if_splits)
next
  assume "heuristic_verdict (looks_available U t) = AVAILABLE"
  then show "\<not> any_pattern U AVAILABILITY_NEGATIVE t"
    by (simp add: heuristic_verdict_def looks_available_def split: if_splits)
next
  show "heuristic_verdict (looks_available U t) \<noteq> UNSURE"
    by (simp add: heuristic_verdict_def)
next
  assume "\<not> has_marker U t"
  then show "heuristic_verdict (looks_available U t) = UNAVAILABLE"
    by (simp add: heuristic_verdict_def looks_available_def has_marker_def)
qed

lemma example_inspect:
  "inspect_date U day (example_world (Inr (Some (example_cell (example_button c)))) s1 s2)
     = (fst (classify False False False c []), [fst (snd (classify False False False c []))], [],
        None)"
  by (simp add: inspect_date_def try_inspect_def example_world_def day_selectors_def
      find_button_def example_cell_def py_lower_def ascii_lower_def asc_def quiet_def
      classify_button_def read_button_def example_button_def split: prod.splits)

theorem verdict_needs_marker_witness:
  "fst (inspect_date ascii_rt 7
          (example_world (Inr (Some (example_cell (example_button (asc ''day sold-out-layout'')))))
             (Inr ()) (Inr ()))) \<noteq> UNSURE
   \<and> (\<exists>el b c h av so fl.
         first_found
           (day_query (example_world (Inr (Some (example_cell (example_button (asc ''day sold-out-layout'')))))
             (Inr ()) (Inr ())))
           (print_at (example_world (Inr (Some (example_cell (example_button (asc ''day sold-out-layout'')))))
             (Inr ()) (Inr ()))) (day_selectors 7) = Inr (Some el)
         \<and> find_button el = Inr (Some b)
         \<and> get_attribute_class b = Inr c \<and> inner_html b = Inr h
         \<and> available_img b = Inr av \<and> sold_out_img b = Inr so \<and> few_left_img b = Inr fl
         \<and> cell_marker av fl so (case c of None \<Rightarrow> [] | Some k \<Rightarrow> k) (take 200 h))
   \<and> heuristic_verdict (looks_available ascii_rt (asc ''few slots '' @ [9651])) = AVAILABLE
   \<and> any_pattern ascii_rt AVAILABILITY_POSITIVE (asc ''few slots '' @ [9651])
   \<and> \<not> any_pattern ascii_rt AVAILABILITY_NEGATIVE (asc ''few slots '' @ [9651])
   \<and> \<not> has_marker ascii_rt (asc ''Welcome to the museum'')
   \<and> heuristic_verdict (looks_available ascii_rt (asc ''Welcome to the museum'')) = UNAVAILABLE"
proof -
  let ?w = "example_world (Inr (Some (example_cell (example_button (asc ''day sold-out-layout'')))))
             (Inr ()) (Inr ())"
  have h1: "fst (inspect_date ascii_rt 7 ?w) \<noteq> UNSURE"
    by (simp add: example_inspect classify_def asc_def)
  have h2: "heuristic_verdict (looks_available ascii_rt (asc ''few slots '' @ [9651])) = AVAILABLE"
    by (simp add: heuristic_verdict_def looks_available_def re_eval)
  have h3: "\<not> has_marker ascii_rt (asc ''Welcome to the museum'')"
    by (simp add: has_marker_def welcome_no_marker)
  note t1 = verdict_needs_marker[of ascii_rt 7 ?w "asc ''few slots '' @ [9651]"]
  note t2 = verdict_needs_marker[of ascii_rt 7 ?w "asc ''Welcome to the museum''"]
  from t1 h1 have c1: "\<exists>el b c h av so fl.
         first_found (day_query ?w) (print_at ?w) (day_selectors 7) = Inr (Some el)
         \<and> find_button el = Inr (Some b)
         \<and> get_attribute_class b = Inr c \<and> inner_html b = Inr h
         \<and> available_img b = Inr av \<and> sold_out_img b = Inr so \<and> few_left_img b = Inr fl
         \<and> cell_marker av fl so (case c of None \<Rightarrow> [] | Some k \<Rightarrow> k) (take 200 h)"
    by blast
  from t1 h2 have c2: "any_pattern ascii_rt AVAILABILITY_POSITIVE (asc ''few slots '' @ [9651])"
    and c3: "\<not> any_pattern ascii_rt AVAILABILITY_NEGATIVE (asc ''few slots '' @ [9651])"
    by blast+
  from t2 h3 have c4: "heuristic_verdict (looks_available ascii_rt (asc ''Welcome to the museum'')) = UNAVAILABLE"
    by blast
  show ?thesis
    by (intro conjI) (rule h1 c1 h2 c2 c3 h3 c4)+
qed

text \<open>
  Claim C7 as stated fails on the full-page path: \<open>Welcome to the museum\<close> matches no
  pattern of either list, and the verdict is \<open>UNAVAILABLE\<close>, not \<open>UNSURE\<close>.
\<close>

theorem verdict_needs_marker_counterexample:
  "\<not> has_marker ascii_rt (asc ''Welcome to the museum'')
   \<and> looks_available ascii_rt (asc ''Welcome to the museum'') = False
   \<and> heuristic_verdict (looks_available ascii_rt (asc ''Welcome to the museum'')) = UNAVAILABLE
   \<and> heuristic_verdict (looks_available ascii_rt (asc ''Welcome to the museum'')) \<noteq> UNSURE"
  by (simp add: has_marker_def welcome_no_marker looks_available_def heuristic_verdict_def)

section \<open>Facts for evaluating the examples\<close>

lemmas date_eval = parse_date_def asc_def ascii_rt_def ascii_int_def ascii_digit_def

lemma example_parse: "parse_date ascii_rt (asc ''2025-10-07'') = Some (2025, 10, 7)"
  "parse_date ascii_rt (asc ''2025-10-08'') = Some (2025, 10, 8)"
  by (simp_all add: date_eval)

lemma example_navigate:
  "navigate_month False 2025 10 (example_world cell s1 s2) = ([Click_next], None)"
  "navigate_month True y m (example_world cell s1 s2) = ([], None)"
  by (simp_all add: navigate_month_def navigate_try_def example_world_def quiet_def asc_def)

lemma example_screenshot:
  "take_screenshot d (example_world cell (Inr ()) s2) = ([Shot_calendar (screenshot_path d)], None)"
  "take_screenshot d (example_world cell (Inl e1) (Inr ()))
     = ([Shot_calendar (screenshot_path d), Shot_page (screenshot_path d)], None)"
  "take_screenshot d (example_world cell (Inl e1) (Inl e2))
     = ([Shot_calendar (screenshot_path d), Shot_page (screenshot_path d)], Some e2)"
  by (simp_all add: take_screenshot_def example_world_def)

lemma example_inspect_error:
  "inspect_date U day (example_world (Inl e) s1 s2) = (UNSURE, [error_evidence e], [], None)"
  by (simp add: inspect_date_def try_inspect_def example_world_def day_selectors_def quiet_def)

lemma example_check_date:
  assumes "parse_date U d = Some (2025, 10, dd)"
    and "inspect_date U dd (example_world cell s1 s2) = (v, ev, es2, None)"
    and "take_screenshot d (example_world cell s1 s2) = (es3, None)"
  shows "check_date U False d (example_world cell s1 s2)
           = ([Click_next] @ es2 @ es3, Inr (make_result d v ev))"
proof -
  have q: "print_at (example_world cell s1 s2) 333 = Inr ()"
    "print_at (example_world cell s1 s2) 342 = Inr ()"
    by (simp_all add: example_world_def quiet_def)
  show ?thesis
    by (simp add: check_date_def q assms check_parsed_def example_navigate)
qed

lemma check_dates_evidence:
  "snd (check_dates U nav ds) = Inr rs \<Longrightarrow> list_all (\<lambda>r. length (evidence r) \<le> 300) rs"
proof (induction ds arbitrary: rs)
  case Nil
  then show ?case by simp
next
  case (Cons dw ds)
  obtain d w where dw: "dw = (d, w)" by (cases dw)
  obtain es1 x1 where c1: "check_date U nav d w = (es1, x1)" by (cases "check_date U nav d w")
  obtain es2 x2 where c2: "check_dates U nav ds = (es2, x2)" by (cases "check_dates U nav ds")
  from Cons.prems dw c1 c2 obtain r rs' where x: "x1 = Inr r" "x2 = Inr rs'" "rs = r # rs'"
    by (cases x1; cases x2) auto
  have "length (evidence r) \<le> 300"
    using check_date_entry[of U nav d w r] c1 x by simp
  moreover have "list_all (\<lambda>r. length (evidence r) \<le> 300) rs'"
    using Cons.IH[of rs'] c2 x by simp
  ultimately show ?case using x by simp
qed

text \<open>
  Claim C9. Every entry of \<open>results\<close> after the loop, and so every row of a printed
  summary, has an evidence field of at most 300 characters, whatever was appended to the
  evidence list.
\<close>

theorem evidence_bounded:
  "(snd (check_dates U nav ds) = Inr rs \<longrightarrow> (\<forall>r\<in>set rs. length (evidence r) \<le> 300))
   \<and> (Summary rs' \<in> set (fst (multi_date U pw ds)) \<longrightarrow> (\<forall>r\<in>set rs'. length (evidence r) \<le> 300))"
proof (intro conjI impI)
  assume "snd (check_dates U nav ds) = Inr rs"
  from check_dates_evidence[OF this] show "\<forall>r\<in>set rs. length (evidence r) \<le> 300"
    by (simp add: list_all_iff)
next
  assume a: "Summary rs' \<in> set (fst (multi_date U pw ds))"
  show "\<forall>r\<in>set rs'. length (evidence r) \<le> 300"
  proof (cases rule: multi_date_cases[of U pw ds])
    case (early es0 c)
    with a before_loop_plain[of U pw] show ?thesis by auto
  next
    case (loop es0 nav es c)
    with a before_loop_plain[of U pw] check_dates_plain[of U nav ds es "Inl c"]
    show ?thesis by auto
  next
    case (summary es0 nav es rs es1 out)
    from a summary before_loop_plain[of U pw] check_dates_plain[of U nav ds es "Inr rs"]
    have "Summary rs' \<in> set es1" by auto
    with print_summary_events[OF summary(3)] have "set rs' \<subseteq> set rs" by auto
    moreover have "list_all (\<lambda>r. length (evidence r) \<le> 300) rs"
      using check_dates_evidence[of U nav ds rs] summary(2) by simp
    ultimately show ?thesis by (auto simp: list_all_iff)
  qed
qed

theorem evidence_bounded_witness:
  "snd (check_dates ascii_rt False
          [(asc ''2025-10-07'',
            example_world (Inl (OtherException (replicate 400 120))) (Inr ()) (Inr ()))])
     = Inr [\<lparr> date = asc ''2025-10-07'', verdict = UNSURE,
               evidence = asc ''error: '' @ replicate 293 120 \<rparr>]
   \<and> length (asc ''error: '' @ replicate 400 (120::nat)) = 407
   \<and> length (evidence \<lparr> date = asc ''2025-10-07'', verdict = UNSURE,
               evidence = asc ''error: '' @ replicate 293 120 \<rparr>) \<le> 300"
proof -
  let ?w = "example_world (Inl (OtherException (replicate 400 120))) (Inr ()) (Inr ())"
  let ?ds = "[(asc ''2025-10-07'', ?w)]"
  let ?r = "\<lparr> date = asc ''2025-10-07'', verdict = UNSURE,
               evidence = asc ''error: '' @ replicate 293 120 \<rparr>"
  have m: "make_result (asc ''2025-10-07'') UNSURE [error_evidence (OtherException (replicate 400 120))] = ?r"
    by (simp add: make_result_def error_evidence_def) (simp add: asc_def)
  have "check_date ascii_rt False (asc ''2025-10-07'') ?w
          = ([Click_next] @ [] @ [Shot_calendar (screenshot_path (asc ''2025-10-07''))], Inr ?r)"
    using example_check_date[OF example_parse(1) example_inspect_error example_screenshot(1)]
    by (simp add: m)
  then have h: "snd (check_dates ascii_rt False ?ds) = Inr [?r]"
    by simp
  from evidence_bounded[of ascii_rt False ?ds "[?r]"] h
  have c: "length (evidence ?r) \<le> 300" by simp
  have l: "length (asc ''error: '' @ replicate 400 (120::nat)) = 407" by (simp add: asc_def)
  show ?thesis
    by (intro conjI) (rule h l c)+
qed

text \<open>
  Claim C10. A run of the multi-date entry point delivers on no notification channel,
  whatever verdicts it produces. \<open>main\<close> delivers only notifications, and only when the
  page text was read and \<open>looks_available\<close> holds of it; it then returns 0.
\<close>

theorem notifications_only_in_main:
  "(\<forall>e\<in>set (fst (multi_date U pw ds)). \<not> is_notify e)
   \<and> ((\<exists>e\<in>set (fst (main U cfg w)). is_notify e) \<longrightarrow>
         (\<exists>t. main_body w = Inr t \<and> looks_available U t) \<and> snd (main U cfg w) = Inr 0)
   \<and> (\<forall>e\<in>set (fst (main U cfg w)). is_notify e)"
proof (intro conjI impI)
  show "\<forall>e\<in>set (fst (multi_date U pw ds)). \<not> is_notify e"
  proof (cases rule: multi_date_cases[of U pw ds])
    case (early es0 c)
    with before_loop_plain[of U pw] show ?thesis by auto
  next
    case (loop es0 nav es c)
    with before_loop_plain[of U pw] check_dates_plain[of U nav ds es "Inl c"]
    show ?thesis by auto
  next
    case (summary es0 nav es rs es1 out)
    from print_summary_events[OF summary(3)] have "\<forall>e\<in>set es1. \<not> is_notify e" by auto
    with summary before_loop_plain[of U pw] check_dates_plain[of U nav ds es "Inr rs"]
    show ?thesis by auto
  qed
next
  assume "\<exists>e\<in>set (fst (main U cfg w)). is_notify e"
  then show "\<exists>t. main_body w = Inr t \<and> looks_available U t"
    by (auto simp: main_def main_try_def split: sum.splits if_splits)
next
  assume "\<exists>e\<in>set (fst (main U cfg w)). is_notify e"
  then show "snd (main U cfg w) = Inr 0"
    by (auto simp: main_def main_try_def split: sum.splits if_splits)
next
  show "\<forall>e\<in>set (fst (main U cfg w)). is_notify e"
    by (auto simp: main_def main_try_def notify_all_def split: sum.splits if_splits)
qed

theorem notifications_only_in_main_witness:
  "fst (main ascii_rt example_config (example_main (asc ''7 '' @ [9675])))
     = [Notify Desktop, Notify Telegram]
   \<and> (\<exists>e\<in>set (fst (main ascii_rt example_config (example_main (asc ''7 '' @ [9675])))).
        is_notify e)
   \<and> (\<exists>t. main_body (example_main (asc ''7 '' @ [9675])) = Inr t \<and> looks_available ascii_rt t)
   \<and> snd (main ascii_rt example_config (example_main (asc ''7 '' @ [9675]))) = Inr 0
   \<and> \<not> (\<exists>e\<in>set (fst (multi_date ascii_rt (example_page (asc ''Reservation calendar''))
          [(asc ''2025-10-07'',
            example_world (Inr (Some (example_cell (example_button (asc ''day-active''))))) (Inr ()) (Inr ()))])).
          is_notify e)"
proof -
  let ?w = "example_main (asc ''7 '' @ [9675])"
  let ?ds = "[(asc ''2025-10-07'',
            example_world (Inr (Some (example_cell (example_button (asc ''day-active''))))) (Inr ()) (Inr ()))]"
  have la: "looks_available ascii_rt (asc ''7 '' @ [9675])"
    by (simp add: looks_available_def re_eval)
  have tr: "truthy (Some (asc ''token''))" "truthy (Some (asc ''42''))" "\<not> truthy None"
    by (simp_all add: truthy_def asc_def)
  have h: "fst (main ascii_rt example_config ?w) = [Notify Desktop, Notify Telegram]"
    by (simp add: main_def main_try_def example_main_def quiet_def la notify_all_def
        example_config_def tr)
  then have e: "\<exists>e\<in>set (fst (main ascii_rt example_config ?w)). is_notify e"
    by simp
  note t = notifications_only_in_main[of ascii_rt "example_page (asc ''Reservation calendar'')" ?ds
      example_config ?w]
  from t e have c1: "\<exists>t. main_body ?w = Inr t \<and> looks_available ascii_rt t"
    and c2: "snd (main ascii_rt example_config ?w) = Inr 0" by blast+
  from t have c3: "\<not> (\<exists>e\<in>set (fst (multi_date ascii_rt (example_page (asc ''Reservation calendar'')) ?ds)).
          is_notify e)" by blast
  show ?thesis
    by (intro conjI) (rule h e c1 c2 c3)+
qed

section \<open>Facts about the end of the run\<close>















section \<open>Facts about the examples of a whole run\<close>

lemmas month_eval = month_pattern_def month_names_def re_search_def lits_def asc_def ci_eq_def
  ascii_lower_def py_isspace_def is_word_def next_char_def ascii_rt_def
  ascii_digit_def

lemma example_no_month:
  "re_search ascii_rt month_pattern (asc ''Reservation calendar'') = None"
  by (simp add: month_eval)

lemma example_month:
  "re_search ascii_rt month_pattern (asc ''September 2025'') = Some (asc ''September 2025'')"
  "re_search ascii_rt month_pattern (asc ''October 2025'') = Some (asc ''October 2025'')"
  by (simp_all add: month_eval)


lemma example_before_loop:
  "before_loop ascii_rt (example_page (asc ''Reservation calendar'')) = ([], Inr False)"
  "before_loop ascii_rt (example_page (asc ''September 2025'')) = ([Click_next], Inr True)"
  by (simp_all add: before_loop_def dismiss_popup_def popup_try_def locate_calendar_def
      locate_try_def month_navigation_def month_try_def after_click_def example_page_def
      example_frame_def quiet_def example_no_month example_month)
    (simp_all add: py_lower_def ascii_lower_def asc_def)

lemma example_not_found:
  "inspect_date ascii_rt day (example_world (Inr None) s1 s2)
     = (UNSURE, [asc ''date element not found''], [Listing [asc ''6'', asc '' 7 '']], None)"
  by (simp add: inspect_date_def try_inspect_def not_found_def example_world_def
      day_selectors_def quiet_def py_isdigit_def py_strip_def py_isspace_def ascii_rt_def
      ascii_digit_def asc_def)

lemma example_path:
  "screenshot_path (asc ''2025-10-07'') = asc ''screenshots/2025_10_07.png''"
  "screenshot_path (asc ''2025-10-08'') = asc ''screenshots/2025_10_08.png''"
  by (simp_all add: screenshot_path_def asc_def)

lemma example_check_date_crash:
  assumes "parse_date U d = Some (2025, 10, dd)"
    and "inspect_date U dd (example_world cell s1 s2) = (v, ev, es2, None)"
    and "take_screenshot d (example_world cell s1 s2) = (es3, Some e)"
  shows "check_date U False d (example_world cell s1 s2)
           = ([Click_next] @ es2 @ es3, Inl (Screenshot_failed e))"
proof -
  have q: "print_at (example_world cell s1 s2) 333 = Inr ()"
    "print_at (example_world cell s1 s2) 342 = Inr ()"
    by (simp_all add: example_world_def quiet_def)
  show ?thesis
    by (simp add: check_date_def q assms check_parsed_def example_navigate)
qed



lemma example_run_crash:
  "multi_date ascii_rt (example_page (asc ''Reservation calendar''))
     [(asc ''2025-10-07'',
       example_world (Inr None) (Inl (OtherException (asc ''frame detached'')))
         (Inl (OtherException (asc ''page closed'')))),
      (asc ''2025-10-08'', example_world (Inr None) (Inr ()) (Inr ()))]
   = ([Click_next, Listing [asc ''6'', asc '' 7 ''],
       Shot_calendar (asc ''screenshots/2025_10_07.png''),
       Shot_page (asc ''screenshots/2025_10_07.png'')],
      Traceback (Screenshot_failed (OtherException (asc ''page closed''))))"
  by (simp add: multi_date_def example_before_loop
      example_check_date_crash[OF example_parse(1) example_not_found example_screenshot(3)]
      example_path)

lemma multi_date_summary_only:
  assumes "snd (multi_date U pw ds) = Exit_ok \<or> (\<exists>e\<in>set (fst (multi_date U pw ds)). is_summary e)"
  shows "\<exists>nav rs. snd (check_dates U nav ds) = Inr rs"
proof (cases rule: multi_date_cases[of U pw ds])
  case (early es0 c)
  with assms before_loop_plain[of U pw] show ?thesis by auto
next
  case (loop es0 nav es c)
  with assms before_loop_plain[of U pw] check_dates_plain[of U nav ds es "Inl c"]
  show ?thesis by auto
next
  case (summary es0 nav es rs es1 out)
  then show ?thesis by (metis snd_conv)
qed


text \<open>
  Claim C5, as amended. When the screenshot call on the calendar page returns, no other
  call is made. When it raises, exactly one call is made on the top-level page, and
  what that call raises is raised by the iteration: nothing catches it. So when both
  calls raise, the iteration records no result for the date; it ends with the exception
  of the second call when it reached the screenshot; and a run whose dates include this
  one prints no summary and does not end with exit status 0.
\<close>

theorem screenshot_fallback:
  "(calendar_screenshot w = Inr () \<longrightarrow>
      take_screenshot d w = ([Shot_calendar (screenshot_path d)], None))
   \<and> (calendar_screenshot w = Inl e1 \<longrightarrow>
      fst (take_screenshot d w)
        = [Shot_calendar (screenshot_path d), Shot_page (screenshot_path d)]
      \<and> length (filter is_fallback_shot (fst (take_screenshot d w))) = 1
      \<and> snd (take_screenshot d w) = failure (page_screenshot w))
   \<and> (calendar_screenshot w = Inl e1 \<and> page_screenshot w = Inl e2 \<longrightarrow>
        (\<forall>r. snd (check_date U nav d w) \<noteq> Inr r)
        \<and> (\<forall>y m dd v ev es2.
              parse_date U d = Some (y, m, dd)
              \<and> print_at w 333 = Inr () \<and> print_at w 342 = Inr ()
              \<and> snd (navigate_month nav y m w) = None
              \<and> inspect_date U dd w = (v, ev, es2, None) \<longrightarrow>
              snd (check_date U nav d w) = Inl (Screenshot_failed e2))
        \<and> ((d, w) \<in> set ds \<longrightarrow>
              snd (multi_date U pw ds) \<noteq> Exit_ok
              \<and> (\<forall>e\<in>set (fst (multi_date U pw ds)). \<not> is_summary e)))"
proof (intro conjI impI allI)
  assume "calendar_screenshot w = Inr ()"
  then show "take_screenshot d w = ([Shot_calendar (screenshot_path d)], None)"
    by (simp add: take_screenshot_def)
next
  assume "calendar_screenshot w = Inl e1"
  then show "fst (take_screenshot d w)
        = [Shot_calendar (screenshot_path d), Shot_page (screenshot_path d)]"
    by (simp add: take_screenshot_def split: sum.splits)
next
  assume "calendar_screenshot w = Inl e1"
  then show "length (filter is_fallback_shot (fst (take_screenshot d w))) = 1"
    by (simp add: take_screenshot_def split: sum.splits)
next
  assume "calendar_screenshot w = Inl e1"
  then show "snd (take_screenshot d w) = failure (page_screenshot w)"
    by (simp add: take_screenshot_def split: sum.splits)
next
  fix r
  assume "calendar_screenshot w = Inl e1 \<and> page_screenshot w = Inl e2"
  then have "both_screenshots_fail w" by (simp add: both_screenshots_fail_def)
  with check_date_entry[of U nav d w r] show "snd (check_date U nav d w) \<noteq> Inr r" by blast
next
  fix y m dd v ev es2
  assume b: "calendar_screenshot w = Inl e1 \<and> page_screenshot w = Inl e2"
    and a: "parse_date U d = Some (y, m, dd)
              \<and> print_at w 333 = Inr () \<and> print_at w 342 = Inr ()
              \<and> snd (navigate_month nav y m w) = None
              \<and> inspect_date U dd w = (v, ev, es2, None)"
  obtain es1 where n: "navigate_month nav y m w = (es1, None)"
    using a by (cases "navigate_month nav y m w") auto
  from b have s: "take_screenshot d w
      = ([Shot_calendar (screenshot_path d), Shot_page (screenshot_path d)], Some e2)"
    by (simp add: take_screenshot_def)
  from a show "snd (check_date U nav d w) = Inl (Screenshot_failed e2)"
    by (simp add: check_date_def check_parsed_def n s)
next
  assume b: "calendar_screenshot w = Inl e1 \<and> page_screenshot w = Inl e2"
    and m: "(d, w) \<in> set ds"
  from b have f: "both_screenshots_fail w" by (simp add: both_screenshots_fail_def)
  have no: "\<not> (\<exists>nav rs. snd (check_dates U nav ds) = Inr rs)"
    using check_dates_only m f by fastforce
  with multi_date_summary_only[of U pw ds]
  show "snd (multi_date U pw ds) \<noteq> Exit_ok" by blast
  from no multi_date_summary_only[of U pw ds]
  show "\<forall>e\<in>set (fst (multi_date U pw ds)). \<not> is_summary e" by blast
qed

theorem screenshot_fallback_witness:
  "calendar_screenshot (example_world (Inr None) (Inl (OtherException (asc ''frame detached'')))
       (Inl (OtherException (asc ''page closed''))))
     = Inl (OtherException (asc ''frame detached''))
   \<and> page_screenshot (example_world (Inr None) (Inl (OtherException (asc ''frame detached'')))
       (Inl (OtherException (asc ''page closed''))))
     = Inl (OtherException (asc ''page closed''))
   \<and> length (filter is_fallback_shot (fst (take_screenshot (asc ''2025-10-07'')
        (example_world (Inr None) (Inl (OtherException (asc ''frame detached'')))
           (Inl (OtherException (asc ''page closed''))))))) = 1
   \<and> snd (check_date ascii_rt False (asc ''2025-10-07'')
        (example_world (Inr None) (Inl (OtherException (asc ''frame detached'')))
           (Inl (OtherException (asc ''page closed'')))))
       = Inl (Screenshot_failed (OtherException (asc ''page closed'')))
   \<and> snd (multi_date ascii_rt (example_page (asc ''Reservation calendar''))
        [(asc ''2025-10-07'',
          example_world (Inr None) (Inl (OtherException (asc ''frame detached'')))
            (Inl (OtherException (asc ''page closed''))))]) \<noteq> Exit_ok
   \<and> calendar_screenshot (example_world (Inr None) (Inr ()) (Inr ())) = Inr ()
   \<and> take_screenshot (asc ''2025-10-07'') (example_world (Inr None) (Inr ()) (Inr ()))
       = ([Shot_calendar (screenshot_path (asc ''2025-10-07''))], None)"
proof -
  let ?e1 = "OtherException (asc ''frame detached'')"
  let ?e2 = "OtherException (asc ''page closed'')"
  let ?w = "example_world (Inr None) (Inl ?e1) (Inl ?e2)"
  let ?v = "example_world (Inr None) (Inr ()) (Inr ())"
  let ?d = "asc ''2025-10-07''"
  let ?pw = "example_page (asc ''Reservation calendar'')"
  have a1: "calendar_screenshot ?w = Inl ?e1" and a2: "page_screenshot ?w = Inl ?e2"
    and a3: "calendar_screenshot ?v = Inr ()"
    and q: "print_at ?w 333 = Inr ()" "print_at ?w 342 = Inr ()"
    by (simp_all add: example_world_def quiet_def)
  have n: "snd (navigate_month False 2025 10 ?w) = None"
    by (simp add: example_navigate)
  have m: "(?d, ?w) \<in> set [(?d, ?w)]" by simp
  note t = screenshot_fallback[of ?w ?d ?e1 ?e2 ascii_rt False "[(?d, ?w)]" ?pw]
  from t a1 have c1: "length (filter is_fallback_shot (fst (take_screenshot ?d ?w))) = 1"
    by blast
  from t a1 a2 example_parse(1) q n example_not_found[of 7 "Inl ?e1" "Inl ?e2"]
  have c2: "snd (check_date ascii_rt False ?d ?w) = Inl (Screenshot_failed ?e2)"
    by blast
  from t a1 a2 m have c3: "snd (multi_date ascii_rt ?pw [(?d, ?w)]) \<noteq> Exit_ok"
    by blast
  from screenshot_fallback[of ?v ?d] a3
  have c4: "take_screenshot ?d ?v = ([Shot_calendar (screenshot_path ?d)], None)"
    by blast
  show ?thesis
    by (intro conjI) (rule a1 a2 a3 c1 c2 c3 c4)+
qed

text \<open>
  Claim C5 as stated fails: when both screenshot calls raise for the first of two dates,
  the run ends with the traceback of the second exception, before the second date and
  without a summary.
\<close>

theorem screenshot_fallback_counterexample:
  "multi_date ascii_rt (example_page (asc ''Reservation calendar''))
     [(asc ''2025-10-07'',
       example_world (Inr None) (Inl (OtherException (asc ''frame detached'')))
         (Inl (OtherException (asc ''page closed'')))),
      (asc ''2025-10-08'', example_world (Inr None) (Inr ()) (Inr ()))]
   = ([Click_next, Listing [asc ''6'', asc '' 7 ''],
       Shot_calendar (asc ''screenshots/2025_10_07.png''),
       Shot_page (asc ''screenshots/2025_10_07.png'')],
      Traceback (Screenshot_failed (OtherException (asc ''page closed''))))
   \<and> exit_status (Traceback (Screenshot_failed (OtherException (asc ''page closed'')))) = 1"
  by (simp add: example_run_crash)




section \<open>Facts about the inspection of one date\<close>



























end
